theory Spec2Isabelle
  imports Main "HOL-Library.Sublist"
begin

section \<open>Errors\<close>

text \<open>
  Go's \<open>error\<close> values. \<open>errors.Wrapf code cause msg\<close> of flytestdlib builds an error
  that carries an error code, a message and the error it wraps. \<open>errors.Wrap\<close> of
  pkg/errors wraps an error with a message. \<open>NewFlyteAdminErrorf\<close> of flyteadmin's
  pkg/errors builds an error from a gRPC status code and a message. Every other error is
  a plain message.
\<close>

datatype error =
  ErrorString string
| ErrorWithCause string string error
| Wrapped string error
| FlyteAdminError nat string

definition ErrauthCtx :: string where
  "ErrauthCtx = ''AUTH_CONTEXT_SETUP_FAILED''"

definition ErrConfigFileRead :: string where
  "ErrConfigFileRead = ''CONFIG_OPTION_FILE_READ_FAILED''"

definition errors_Wrapf :: "string \<Rightarrow> error \<Rightarrow> string \<Rightarrow> error" where
  "errors_Wrapf code cause msg = ErrorWithCause code msg cause"

definition errors_Wrap :: "error \<Rightarrow> string \<Rightarrow> error" where
  "errors_Wrap err msg = Wrapped msg err"

definition codes_Internal :: nat where
  "codes_Internal = 13"

definition NewFlyteAdminErrorf :: "nat \<Rightarrow> string \<Rightarrow> error" where
  "NewFlyteAdminErrorf code msg = FlyteAdminError code msg"

fun error_code :: "error \<Rightarrow> string option" where
  "error_code (ErrorWithCause code m cause) = Some code"
| "error_code err = None"

section \<open>auth/auth\_context.go: the anonymous methods of the auth service\<close>

text \<open>
  \<open>anonymousMethodNames\<close> is a \<open>sets.String\<close>, a map keyed by the names; \<open>Has\<close> is a
  map lookup, that is, equality of strings.
\<close>

definition anonymousMethodNames :: "string set" where
  "anonymousMethodNames =
     {''/flyteidl.service.AuthService/OAuth2Metadata'',
      ''/flyteidl.service.AuthService/FlyteClient''}"

text \<open>
  The call context (\<open>context.Context\<close>) is a list of key-value pairs. An
  \<open>AuthFunc\<close> returns a context and an error, as the Go pair does. The field
  \<open>authInterceptor\<close> is a function value, which is \<open>nil\<close> in the zero value of the
  struct; calling a \<open>nil\<close> function panics, and \<open>None\<close> is that panic.
\<close>

type_synonym go_context = "(string \<times> string) list"

type_synonym AuthFunc = "go_context \<Rightarrow> go_context \<times> error option"

record authServiceWrapper =
  OAuth2MetadataProvider :: "nat option"
  OIdCUserInfoProvider :: "nat option"
  authInterceptor :: "AuthFunc option"

definition AuthFuncOverride ::
  "authServiceWrapper \<Rightarrow> go_context \<Rightarrow> string \<Rightarrow> (go_context \<times> error option) option" where
  "AuthFuncOverride s ctx fullMethodName =
     (if fullMethodName \<in> anonymousMethodNames then Some (ctx, None)
      else (case authInterceptor s of
              None \<Rightarrow> None
            | Some f \<Rightarrow> Some (f ctx)))"

section \<open>The library types used by auth/auth\_context.go\<close>

text \<open>
  \<open>url.URL\<close> with the fields this code reads: scheme, userinfo (\<open>None\<close> for a \<open>nil\<close>
  \<open>User\<close>), host, path, query and fragment, each as the struct holds it, not escaped.
  An opaque part, a raw path or fragment and forced empty queries are left out: the URLs
  that this code renders for a request take only scheme, userinfo and host from the
  request.
\<close>

record Userinfo =
  username :: string
  password :: string
  passwordSet :: bool

record URL =
  Scheme :: string
  User :: "Userinfo option"
  Host :: string
  Path :: string
  RawQuery :: string
  Fragment :: string

text \<open>
  The percent-escaping of net/url is the library's and is taken as it is, whatever it
  does: \<open>escapeHost\<close> is \<open>escape(s, encodeHost)\<close>, \<open>escapeUserPassword\<close> is
  \<open>escape(s, encodeUserPassword)\<close>, \<open>EscapedPath\<close> is what \<open>EscapedPath()\<close> returns
  for a URL with the given path and no raw path, and \<open>EscapedFragment\<close> the same for a
  fragment.
\<close>

record url_escaping =
  escapeHost :: "string \<Rightarrow> string"
  escapeUserPassword :: "string \<Rightarrow> string"
  EscapedPath :: "string \<Rightarrow> string"
  EscapedFragment :: "string \<Rightarrow> string"

definition URL_zero :: URL where
  "URL_zero = \<lparr>Scheme = '''', User = None, Host = '''', Path = '''', RawQuery = '''', Fragment = ''''\<rparr>"

text \<open>\<open>config.MustParseURL\<close> on a string that is only an absolute path.\<close>

definition callbackRelativeUrl :: URL where
  "callbackRelativeUrl = URL_zero\<lparr>Path := ''/callback''\<rparr>"

definition rootRelativeUrl :: URL where
  "rootRelativeUrl = URL_zero\<lparr>Path := ''/''\<rparr>"

text \<open>
  \<open>u.ResolveReference(ref)\<close> for a reference with no scheme, host or userinfo whose path
  is absolute and has no dot segment, as both references of this file are: the result
  is a copy of the reference that takes scheme, host and userinfo from \<open>u\<close> and keeps the
  reference's own path, query and fragment.
\<close>

definition ResolveReference :: "URL \<Rightarrow> URL \<Rightarrow> URL" where
  "ResolveReference u ref = ref\<lparr>Scheme := Scheme u, Host := Host u, User := User u\<rparr>"

text \<open>
  \<open>ui.String()\<close> of a userinfo: the escaped user name, and after a colon the escaped
  password when one is set.
\<close>

definition Userinfo_String :: "url_escaping \<Rightarrow> Userinfo \<Rightarrow> string" where
  "Userinfo_String esc ui =
     escapeUserPassword esc (username ui)
     @ (if passwordSet ui then '':'' @ escapeUserPassword esc (password ui) else '''')"

text \<open>
  \<open>u.String()\<close>, following the order in which the library writes the parts: the scheme
  as it is, the userinfo and the host escaped, the escaped path, the query as it is and
  the escaped fragment.
\<close>

definition URL_String :: "url_escaping \<Rightarrow> URL \<Rightarrow> string" where
  "URL_String esc u =
     (let scheme = (if Scheme u \<noteq> '''' then Scheme u @ '':'' else '''');
          authority =
            (if Scheme u \<noteq> '''' \<or> Host u \<noteq> '''' \<or> User u \<noteq> None
             then (if Host u \<noteq> '''' \<or> Path u \<noteq> '''' \<or> User u \<noteq> None then ''//'' else '''')
                  @ (case User u of None \<Rightarrow> '''' | Some ui \<Rightarrow> Userinfo_String esc ui @ ''@'')
                  @ (if Host u \<noteq> '''' then escapeHost esc (Host u) else '''')
             else '''');
          path = EscapedPath esc (Path u);
          slash = (if path \<noteq> '''' \<and> hd path \<noteq> CHR ''/'' \<and> Host u \<noteq> '''' then ''/'' else '''');
          dot = (if scheme @ authority @ slash = ''''
                    \<and> CHR '':'' \<in> set (takeWhile (\<lambda>c. c \<noteq> CHR ''/'') path)
                 then ''./'' else '''');
          query = (if RawQuery u \<noteq> '''' then ''?'' @ RawQuery u else '''');
          fragment = (if Fragment u \<noteq> '''' then ''#'' @ EscapedFragment esc (Fragment u)
                      else '''')
      in scheme @ authority @ slash @ dot @ path @ query @ fragment)"

definition strings_HasPrefix :: "string \<Rightarrow> string \<Rightarrow> bool" where
  "strings_HasPrefix s p = prefix p s"

definition strings_TrimSuffix :: "string \<Rightarrow> string \<Rightarrow> string" where
  "strings_TrimSuffix s suf =
     (if suffix suf s then take (length s - length suf) s else s)"

record oauth2_Endpoint =
  AuthURL :: string
  TokenURL :: string
  AuthStyle :: int

definition oauth2_Endpoint_zero :: oauth2_Endpoint where
  "oauth2_Endpoint_zero = \<lparr>AuthURL = '''', TokenURL = '''', AuthStyle = 0\<rparr>"

record oauth2_Config =
  ClientID :: string
  ClientSecret :: string
  Endpoint :: oauth2_Endpoint
  RedirectURL :: string
  Scopes :: "string list"

definition oauth2_Config_zero :: oauth2_Config where
  "oauth2_Config_zero =
     \<lparr>ClientID = '''', ClientSecret = '''', Endpoint = oauth2_Endpoint_zero,
      RedirectURL = '''', Scopes = []\<rparr>"

text \<open>
  The OAuth2 descriptors live in a store, so that a pointer to a descriptor
  (\<open>*oauth2.Config\<close>) is an address and two pointers can be told apart. \<open>&oauth2.Config{...}\<close>
  allocates the next free address.
\<close>

type_synonym addr = nat

type_synonym heap = "oauth2_Config list"

definition alloc :: "heap \<Rightarrow> oauth2_Config \<Rightarrow> addr \<times> heap" where
  "alloc h v = (length h, h @ [v])"

record http_Client =
  Timeout :: int

record oidc_Provider =
  issuer :: string
  Provider_Endpoint :: oauth2_Endpoint

record CookieManager =
  hashKey :: string
  blockKey :: string

text \<open>The options of auth/config, with the fields this file reads.\<close>

record OpenIDOptions =
  ClientID :: string
  ClientSecretName :: string
  DeprecatedClientSecretFile :: string
  BaseURL :: URL
  Scopes :: "string list"

record UserAuthConfig =
  CookieHashKeySecretName :: string
  CookieBlockKeySecretName :: string
  OpenID :: OpenIDOptions

record Config =
  UserAuth :: UserAuthConfig
  HTTPPublicUri :: URL

section \<open>auth/auth\_context.go: the authentication context\<close>

text \<open>
  Pointers and interfaces of the struct are options, \<open>None\<close> for \<open>nil\<close>. The OAuth2
  provider, the resource server and the two providers of the auth service are handles
  of objects built elsewhere.
\<close>

record Context =
  oauth2Client :: "addr option"
  cookieManager :: "CookieManager option"
  oidcProvider :: "oidc_Provider option"
  options :: "Config option"
  oauth2Provider :: "nat option"
  oauth2ResourceServer :: "nat option"
  AuthServiceImpl :: "authServiceWrapper option"
  userInfoURL :: "URL option"
  oauth2MetadataURL :: "URL option"
  oidcMetadataURL :: "URL option"
  httpClient :: "http_Client option"

definition Context_zero :: Context where
  "Context_zero =
     \<lparr>oauth2Client = None, cookieManager = None, oidcProvider = None, options = None,
      oauth2Provider = None, oauth2ResourceServer = None, AuthServiceImpl = None,
      userInfoURL = None, oauth2MetadataURL = None, oidcMetadataURL = None,
      httpClient = None\<rparr>"

text \<open>
  \<open>OAuth2ClientConfig\<close> returns a pointer and may allocate. Reading through a \<open>nil\<close>
  \<open>oauth2Client\<close> panics (\<open>None\<close>); the \<open>||\<close> of the source does not read it when the
  request URL is \<open>nil\<close>. An address outside the store does not occur in Go and is
  treated like \<open>nil\<close>. The first argument is the library's escaping, which
  \<open>String\<close> uses.
\<close>

definition OAuth2ClientConfig ::
  "url_escaping \<Rightarrow> Context \<Rightarrow> heap \<Rightarrow> URL option \<Rightarrow> (addr option \<times> heap) option" where
  "OAuth2ClientConfig esc c h requestUrl =
     (case requestUrl of
        None \<Rightarrow> Some (oauth2Client c, h)
      | Some u \<Rightarrow>
          (case oauth2Client c of
             None \<Rightarrow> None
           | Some a \<Rightarrow>
               if \<not> a < length h then None
               else if strings_HasPrefix (RedirectURL (h ! a))
                         (URL_String esc (ResolveReference u rootRelativeUrl))
               then Some (oauth2Client c, h)
               else (let (a', h') =
                           alloc h
                             \<lparr>oauth2_Config.ClientID = oauth2_Config.ClientID (h ! a),
                              ClientSecret = ClientSecret (h ! a),
                              Endpoint = Endpoint (h ! a),
                              RedirectURL =
                                URL_String esc (ResolveReference u callbackRelativeUrl),
                              oauth2_Config.Scopes = oauth2_Config.Scopes (h ! a)\<rparr>
                     in Some (Some a', h'))))"

text \<open>
  What \<open>NewAuthenticationContext\<close> and \<open>GetOAuth2ClientConfig\<close> call outside this file:
  the cookie manager's constructor, OIDC discovery, \<open>url.Parse\<close>, \<open>ioutil.ReadFile\<close>, the
  two metadata endpoint constants, the constructor of the interceptor and the escaping
  of net/url. The secret
  manager \<open>sm\<close> is an argument of its own; \<open>sm.Get\<close> and the other calls return an
  error (\<open>Inl\<close>) or a value.
\<close>

type_synonym SecretManager = "string \<Rightarrow> error + string"

record env =
  NewCookieManager :: "string \<Rightarrow> string \<Rightarrow> error + CookieManager"
  oidc_NewProvider :: "http_Client \<Rightarrow> string \<Rightarrow> error + oidc_Provider"
  url_Parse :: "string \<Rightarrow> error + URL"
  ioutil_ReadFile :: "string \<Rightarrow> error + string"
  OAuth2MetadataEndpoint :: string
  OIdCMetadataEndpoint :: string
  GetAuthenticationInterceptor :: "Context \<Rightarrow> AuthFunc"
  escaping :: url_escaping

definition IdpConnectionTimeout :: int where
  "IdpConnectionTimeout = 10 * 1000000000"

definition GetOAuth2ClientConfig ::
  "env \<Rightarrow> OpenIDOptions \<Rightarrow> URL \<Rightarrow> oauth2_Endpoint \<Rightarrow> SecretManager
     \<Rightarrow> oauth2_Config \<times> error option" where
  "GetOAuth2ClientConfig e opts publicHTTPBaseUrl providerEndpoints sm =
     (case (if length (DeprecatedClientSecretFile opts) > 0
            then ioutil_ReadFile e (ClientSecretName opts)
            else sm (ClientSecretName opts)) of
        Inl err \<Rightarrow> (oauth2_Config_zero, Some err)
      | Inr secret \<Rightarrow>
          (\<lparr>oauth2_Config.ClientID = OpenIDOptions.ClientID opts,
            ClientSecret = strings_TrimSuffix secret [CHR 0x0A],
            Endpoint = providerEndpoints,
            RedirectURL =
              URL_String (escaping e) (ResolveReference publicHTTPBaseUrl callbackRelativeUrl),
            oauth2_Config.Scopes = OpenIDOptions.Scopes opts\<rparr>, None))"

text \<open>
  \<open>NewAuthenticationContext\<close> returns the pair of the source, a context and an error,
  with the store after the call. \<open>options\<close> is a pointer: reading \<open>options.UserAuth\<close>
  through \<open>nil\<close> panics, which is the outer \<open>None\<close>. The calls to the logger write
  nothing that is returned and are left out. The steps are nested in the order of the
  source; each failure returns \<open>Context{}\<close> with the wrapped error.
\<close>

definition NewAuthenticationContext ::
  "env \<Rightarrow> heap \<Rightarrow> SecretManager \<Rightarrow> nat option \<Rightarrow> nat option \<Rightarrow> nat option \<Rightarrow> nat option
     \<Rightarrow> Config option \<Rightarrow> ((Context \<times> error option) \<times> heap) option" where
  "NewAuthenticationContext e h sm oauth2Provider' oauth2ResourceServer' metadataProvider
       infoProvider options' =
     (case options' of
        None \<Rightarrow> None
      | Some opts \<Rightarrow> Some
     (case sm (CookieHashKeySecretName (UserAuth opts)) of
        Inl err \<Rightarrow>
          ((Context_zero,
            Some (errors_Wrapf ErrConfigFileRead err ''Could not read hash key file'')), h)
      | Inr hashKeyBase64 \<Rightarrow>
     (case sm (CookieBlockKeySecretName (UserAuth opts)) of
        Inl err \<Rightarrow>
          ((Context_zero,
            Some (errors_Wrapf ErrConfigFileRead err ''Could not read hash key file'')), h)
      | Inr blockKeyBase64 \<Rightarrow>
     (case NewCookieManager e hashKeyBase64 blockKeyBase64 of
        Inl err \<Rightarrow>
          ((Context_zero,
            Some (errors_Wrapf ErrauthCtx err ''Error creating cookie manager'')), h)
      | Inr cookieManager' \<Rightarrow>
     (let httpClient' = \<lparr>Timeout = IdpConnectionTimeout\<rparr>;
          baseURL = URL_String (escaping e) (BaseURL (OpenID (UserAuth opts)))
      in
     (case oidc_NewProvider e httpClient' baseURL of
        Inl err \<Rightarrow>
          ((Context_zero,
            Some (errors_Wrapf ErrauthCtx err
                    (''Error creating oidc provider w/ issuer ['' @ baseURL @ '']''))), h)
      | Inr provider \<Rightarrow>
     (case GetOAuth2ClientConfig e (OpenID (UserAuth opts)) (HTTPPublicUri opts)
             (Provider_Endpoint provider) sm of
        (cfg, Some err) \<Rightarrow>
          ((Context_zero,
            Some (errors_Wrapf ErrauthCtx err ''Error creating OAuth2 library configuration'')), h)
      | (oauth2Config, None) \<Rightarrow>
     (case url_Parse e (OAuth2MetadataEndpoint e) of
        Inl err \<Rightarrow>
          ((Context_zero,
            Some (errors_Wrapf ErrauthCtx err ''Error parsing metadata URL'')), h)
      | Inr oauth2MetadataURL' \<Rightarrow>
     (case url_Parse e (OIdCMetadataEndpoint e) of
        Inl err \<Rightarrow>
          ((Context_zero,
            Some (errors_Wrapf ErrauthCtx err ''Error parsing metadata URL'')), h)
      | Inr oidcMetadataURL' \<Rightarrow>
     (let (a, h') = alloc h oauth2Config;
          authCtx =
            \<lparr>oauth2Client = Some a,
             cookieManager = Some cookieManager',
             oidcProvider = Some provider,
             options = Some opts,
             oauth2Provider = oauth2Provider',
             oauth2ResourceServer = oauth2ResourceServer',
             AuthServiceImpl = None,
             userInfoURL = None,
             oauth2MetadataURL = Some oauth2MetadataURL',
             oidcMetadataURL = Some oidcMetadataURL',
             httpClient = Some httpClient'\<rparr>;
          authSvc =
            \<lparr>OAuth2MetadataProvider = metadataProvider,
             OIdCUserInfoProvider = infoProvider,
             authInterceptor = Some (GetAuthenticationInterceptor e authCtx)\<rparr>
      in ((authCtx\<lparr>AuthServiceImpl := Some authSvc\<rparr>, None), h')))))))))))"

section \<open>cmd/entrypoints/serve.go: the protocol demultiplexer\<close>

text \<open>
  \<open>http.Header\<close> is a map from canonical header names to the list of their values;
  \<open>Get\<close> returns the first value, or the empty string when there is none. The key
  \<open>Content-Type\<close> is already in canonical form. \<open>strings.Contains s substr\<close> holds when
  \<open>substr\<close> occurs in \<open>s\<close> as a contiguous block.
\<close>

type_synonym http_Header = "string \<rightharpoonup> string list"

definition Header_Get :: "http_Header \<Rightarrow> string \<Rightarrow> string" where
  "Header_Get h key =
     (case h key of
        None \<Rightarrow> ''''
      | Some [] \<Rightarrow> ''''
      | Some (v # vs) \<Rightarrow> v)"

fun strings_Contains :: "string \<Rightarrow> string \<Rightarrow> bool" where
  "strings_Contains [] substr = (substr = [])"
| "strings_Contains (c # s) substr =
     (prefix substr (c # s) \<or> strings_Contains s substr)"

record http_Request =
  ProtoMajor :: int
  Header :: http_Header
  URL_Path :: string

text \<open>
  A handler turns the state of the response writer into a new one. The two handlers
  \<open>grpcServer\<close> and \<open>otherHandler\<close> are the arguments of \<open>grpcHandlerFunc\<close>.
\<close>

type_synonym 'w http_Handler = "'w \<Rightarrow> http_Request \<Rightarrow> 'w"

definition grpcHandlerFunc :: "'w http_Handler \<Rightarrow> 'w http_Handler \<Rightarrow> 'w http_Handler" where
  "grpcHandlerFunc grpcServer otherHandler =
     (\<lambda>w r.
        if ProtoMajor r = 2
           \<and> strings_Contains (Header_Get (Header r) ''Content-Type'') ''application/grpc''
        then grpcServer w r
        else otherHandler w r)"

section \<open>cmd/entrypoints/serve.go: the gRPC server\<close>

text \<open>
  A unary call runs through interceptors. To tell what runs before what, every handler
  and interceptor takes the list of events so far and returns it extended, with the
  response or the error of the call. Three functions are the libraries' and not this
  repository's. \<open>grpc_prometheus.UnaryServerInterceptor\<close> records the start of the
  call, runs the rest and then records the outcome. \<open>grpcauth.UnaryServerInterceptor\<close>
  of go-grpc-middleware runs the auth function (the service's own \<open>AuthFuncOverride\<close>
  when the service has one) and calls the rest only when there is no error.
  \<open>grpc_middleware.ChainUnaryServer\<close> makes the first interceptor of its list the
  outermost. The events \<open>MetricsStarted\<close>, \<open>MetricsHandled\<close> and \<open>AuthChecked\<close>
  mark the points where these library interceptors act.
\<close>

datatype event =
  MetricsStarted string
| MetricsHandled string "error option"
| AuthChecked string
| HandlerRan string

type_synonym UnaryHandler =
  "event list \<Rightarrow> go_context \<Rightarrow> string \<Rightarrow> event list \<times> (error + string)"

record UnaryServerInfo =
  ServerOverride :: "(go_context \<Rightarrow> string \<Rightarrow> go_context \<times> error option) option"
  FullMethod :: string

type_synonym UnaryServerInterceptor =
  "event list \<Rightarrow> go_context \<Rightarrow> string \<Rightarrow> UnaryServerInfo \<Rightarrow> UnaryHandler
     \<Rightarrow> event list \<times> (error + string)"

definition grpc_prometheus_UnaryServerInterceptor :: UnaryServerInterceptor where
  "grpc_prometheus_UnaryServerInterceptor log ctx req info handler =
     (let (log', r) = handler (log @ [MetricsStarted (FullMethod info)]) ctx req
      in (log' @ [MetricsHandled (FullMethod info)
                    (case r of Inl err \<Rightarrow> Some err | Inr resp \<Rightarrow> None)],
          r))"

definition grpcauth_UnaryServerInterceptor :: "AuthFunc \<Rightarrow> UnaryServerInterceptor" where
  "grpcauth_UnaryServerInterceptor authFunc log ctx req info handler =
     (let (newCtx, err) =
            (case ServerOverride info of
               Some overrideSrv \<Rightarrow> overrideSrv ctx (FullMethod info)
             | None \<Rightarrow> authFunc ctx)
      in case err of
           Some e \<Rightarrow> (log @ [AuthChecked (FullMethod info)], Inl e)
         | None \<Rightarrow> handler (log @ [AuthChecked (FullMethod info)]) newCtx req)"

fun ChainUnaryServer :: "UnaryServerInterceptor list \<Rightarrow> UnaryServerInterceptor" where
  "ChainUnaryServer [] = (\<lambda>log ctx req info handler. handler log ctx req)"
| "ChainUnaryServer (i # is) =
     (\<lambda>log ctx req info handler.
        i log ctx req info (\<lambda>log' ctx' req'. ChainUnaryServer is log' ctx' req' info handler))"

record SecurityConfig =
  Secure :: bool
  UseAuth :: bool

record ServerConfig =
  Security :: SecurityConfig
  KubeConfig :: string
  Master :: string

text \<open>
  What serve.go takes from the auth package, from the generated service code and from
  the gateway runtime. \<open>'ac\<close> is the authentication context this version of serve.go
  is given.
\<close>

record ResponseWriter =
  status :: "nat option"
  body :: string

type_synonym Handler = "ResponseWriter \<Rightarrow> http_Request \<Rightarrow> ResponseWriter"

record runtime_ServeMux =
  marshalerOption :: string
  withMetadata :: bool
  registered :: "string list"

record 'ac serve_env =
  auth_GetAuthenticationInterceptor :: "'ac \<Rightarrow> AuthFunc"
  auth_AuthenticationLoggingInterceptor :: UnaryServerInterceptor
  auth_GetLoginHandler :: "'ac \<Rightarrow> Handler"
  auth_RefreshTokensIfExists :: "'ac \<Rightarrow> Handler \<Rightarrow> Handler"
  auth_GetCallbackHandler :: "'ac \<Rightarrow> Handler"
  flyteService_Asset :: "string \<Rightarrow> error + string"
  RegisterAdminServiceHandlerFromEndpoint ::
    "runtime_ServeMux \<Rightarrow> string \<Rightarrow> error option \<times> runtime_ServeMux"
  gwmux_ServeHTTP :: "runtime_ServeMux \<Rightarrow> Handler"

record grpc_Server =
  unaryInterceptor :: UnaryServerInterceptor
  services :: "string list"
  serverOpts :: "string list"

text \<open>
  \<open>newGRPCServer\<close> never returns an error; the server it returns holds the chained
  interceptor, the caller's options after its own and the admin service.
\<close>

definition newGRPCServer ::
  "'ac serve_env \<Rightarrow> ServerConfig \<Rightarrow> 'ac \<Rightarrow> string list \<Rightarrow> grpc_Server \<times> error option" where
  "newGRPCServer e cfg authContext opts =
     (let chainedUnaryInterceptors =
            (if UseAuth (Security cfg)
             then ChainUnaryServer
                    [grpc_prometheus_UnaryServerInterceptor,
                     grpcauth_UnaryServerInterceptor
                       (auth_GetAuthenticationInterceptor e authContext),
                     auth_AuthenticationLoggingInterceptor e]
             else ChainUnaryServer [grpc_prometheus_UnaryServerInterceptor])
      in (\<lparr>unaryInterceptor = chainedUnaryInterceptors,
           services = [''flyteidl.service.AdminService''],
           serverOpts = [''StreamInterceptor'', ''UnaryInterceptor''] @ opts\<rparr>, None))"

section \<open>cmd/entrypoints/serve.go: the HTTP server\<close>

text \<open>
  A response writer keeps the first status code written; writing a body before any
  status code writes 200 first.
\<close>

definition WriteHeader :: "ResponseWriter \<Rightarrow> nat \<Rightarrow> ResponseWriter" where
  "WriteHeader w code = (if status w = None then w\<lparr>status := Some code\<rparr> else w)"

definition Write :: "ResponseWriter \<Rightarrow> string \<Rightarrow> ResponseWriter" where
  "Write w bytes = (let w' = WriteHeader w 200 in w'\<lparr>body := body w' @ bytes\<rparr>)"

definition http_StatusOK :: nat where
  "http_StatusOK = 200"

definition http_StatusFailedDependency :: nat where
  "http_StatusFailedDependency = 424"

definition htmlIndex :: string where
  "htmlIndex =
     ''<html>'' @ [CHR 0x0A] @ ''<body>'' @ [CHR 0x0A, CHR 0x09]
     @ ''<a href='' @ [CHR 0x22] @ ''/login'' @ [CHR 0x22] @ ''>Okta Log In</a>'' @ [CHR 0x0A]
     @ ''</body>'' @ [CHR 0x0A] @ ''</html>''"

definition loginPage :: Handler where
  "loginPage w r = Write w htmlIndex"

definition healthcheck :: Handler where
  "healthcheck w r = WriteHeader w http_StatusOK"

definition GetHandleOpenapiSpec :: "'ac serve_env \<Rightarrow> Handler" where
  "GetHandleOpenapiSpec e =
     (\<lambda>w r. case flyteService_Asset e ''admin.swagger.json'' of
               Inl err \<Rightarrow> WriteHeader w http_StatusFailedDependency
             | Inr swaggerBytes \<Rightarrow> Write (WriteHeader w http_StatusOK) swaggerBytes)"

text \<open>
  \<open>http.ServeMux\<close>: the registered patterns with their handlers. \<open>Handle\<close> panics
  (\<open>None\<close>) on an empty pattern and on one registered before. \<open>ServeMux_match\<close> is the
  mux's \<open>match\<close> on a path that is already clean (no \<open>.\<close> or \<open>..\<close> segment, no
  doubled slash): such a path is served by the handler of the pattern equal to it, or
  else by the longest pattern ending in a slash that is a prefix of it. The cleaning of
  other paths, which the mux answers with a redirect, is left out.
\<close>

type_synonym ServeMux = "(string \<times> Handler) list"

definition ServeMux_Handle :: "ServeMux \<Rightarrow> string \<Rightarrow> Handler \<Rightarrow> ServeMux option" where
  "ServeMux_Handle mux pattern handler =
     (if pattern = '''' \<or> map_of mux pattern \<noteq> None then None
      else Some (mux @ [(pattern, handler)]))"

fun longest_prefix ::
  "ServeMux \<Rightarrow> string \<Rightarrow> (string \<times> Handler) option \<Rightarrow> (string \<times> Handler) option" where
  "longest_prefix [] path best = best"
| "longest_prefix ((pattern, handler) # es) path best =
     longest_prefix es path
       (if pattern \<noteq> '''' \<and> last pattern = CHR ''/'' \<and> prefix pattern path
           \<and> (case best of None \<Rightarrow> True | Some (p, h) \<Rightarrow> length p < length pattern)
        then Some (pattern, handler) else best)"

definition ServeMux_match :: "ServeMux \<Rightarrow> string \<Rightarrow> (string \<times> Handler) option" where
  "ServeMux_match mux path =
     (case map_of mux path of
        Some handler \<Rightarrow> Some (path, handler)
      | None \<Rightarrow> longest_prefix mux path None)"

definition ServeMux_patterns :: "ServeMux \<Rightarrow> string list" where
  "ServeMux_patterns mux = map fst mux"

text \<open>
  \<open>newHTTPServer\<close> returns the mux and an error; the outer \<open>None\<close> is a panic of
  \<open>Handle\<close>. The three OAuth2 routes are registered inside the test of \<open>UseAuth\<close>.
\<close>

definition newHTTPServer ::
  "'ac serve_env \<Rightarrow> ServerConfig \<Rightarrow> 'ac \<Rightarrow> string
     \<Rightarrow> (ServeMux option \<times> error option) option" where
  "newHTTPServer e cfg authContext grpcAddress =
     Option.bind (ServeMux_Handle [] ''/healthcheck'' healthcheck) (\<lambda>mux1.
     Option.bind (ServeMux_Handle mux1 ''/api/v1/openapi'' (GetHandleOpenapiSpec e)) (\<lambda>mux2.
     Option.bind
       (if UseAuth (Security cfg)
        then
          Option.bind (ServeMux_Handle mux2 ''/login_page'' loginPage) (\<lambda>mux3.
          Option.bind (ServeMux_Handle mux3 ''/login''
                         (auth_RefreshTokensIfExists e authContext
                            (auth_GetLoginHandler e authContext))) (\<lambda>mux4.
          Option.bind (ServeMux_Handle mux4 ''/callback'' (auth_GetCallbackHandler e authContext))
            (\<lambda>mux5.
          Some (mux5, \<lparr>marshalerOption = ''application/octet-stream'', withMetadata = True,
                       registered = []\<rparr>))))
        else Some (mux2, \<lparr>marshalerOption = ''application/octet-stream'', withMetadata = False,
                          registered = []\<rparr>))
       (\<lambda>(mux, gwmux).
          case RegisterAdminServiceHandlerFromEndpoint e gwmux grpcAddress of
            (Some err, gwmux') \<Rightarrow>
              Some (None, Some (errors_Wrap err ''error registering admin service''))
          | (None, gwmux') \<Rightarrow>
              Option.bind (ServeMux_Handle mux ''/'' (gwmux_ServeHTTP e gwmux')) (\<lambda>mux'.
              Some (Some mux', None)))))"

section \<open>pkg/workflowengine/impl: preparing a workflow for execution\<close>

text \<open>
  The types of flyteidl, flytepropeller and apimachinery with the fields
  \<open>PrepareFlyteWorkflow\<close> reads or writes. A pointer is an option, \<open>None\<close> for \<open>nil\<close>;
  a Go map is an option of a map, \<open>None\<close> for the \<open>nil\<close> map. A struct that only wraps
  one pointer (\<open>v1alpha1.WorkflowExecutionIdentifier\<close>, \<open>v1alpha1.RawOutputDataConfig\<close>)
  is that pointer. A time is a number of nanoseconds. A \<open>resource.Quantity\<close> is an
  amount with a format, and \<open>IsZero\<close> looks at the amount.
\<close>

record WorkflowExecutionIdentifier =
  Project :: string
  Domain :: string
  Name :: string

record AuthRole =
  AssumableIamRole :: string
  KubernetesServiceAccount :: string

record PluginOverride =
  TaskType :: string
  PluginId :: "string list"
  MissingPluginBehavior :: int

record TaskPluginOverride =
  PluginIDs :: "string list"
  MissingPluginBehavior :: int

record WorkflowExecutionConfig =
  MaxParallelism :: int

record Quantity =
  amount :: int
  Format :: string

definition Quantity_zero :: Quantity where
  "Quantity_zero = \<lparr>amount = 0, Format = ''''\<rparr>"

definition IsZero :: "Quantity \<Rightarrow> bool" where
  "IsZero q = (amount q = 0)"

record TaskResourceSet =
  CPU :: Quantity
  GPU :: Quantity
  Memory :: Quantity
  Storage :: Quantity
  EphemeralStorage :: Quantity

record TaskResources =
  Defaults :: TaskResourceSet
  Limits :: TaskResourceSet

record TaskResourceSpec =
  CPU :: Quantity
  Memory :: Quantity
  EphemeralStorage :: Quantity
  Storage :: Quantity
  GPU :: Quantity

definition TaskResourceSpec_zero :: TaskResourceSpec where
  "TaskResourceSpec_zero =
     \<lparr>TaskResourceSpec.CPU = Quantity_zero, TaskResourceSpec.Memory = Quantity_zero,
      TaskResourceSpec.EphemeralStorage = Quantity_zero,
      TaskResourceSpec.Storage = Quantity_zero, TaskResourceSpec.GPU = Quantity_zero\<rparr>"

record v1alpha1_TaskResources =
  Requests :: TaskResourceSpec
  Limits :: TaskResourceSpec

record ExecutionConfig =
  TaskPluginImpls :: "(string \<rightharpoonup> TaskPluginOverride) option"
  MaxParallelism :: nat
  RecoveryExecution :: "WorkflowExecutionIdentifier option"
  TaskResources :: v1alpha1_TaskResources

record RawOutputDataConfig =
  OutputLocationPrefix :: string

record WorkflowMeta =
  EventVersion :: int

record FlyteWorkflow =
  Labels :: "(string \<rightharpoonup> string) option"
  Annotations :: "(string \<rightharpoonup> string) option"
  ExecutionID :: "WorkflowExecutionIdentifier option"
  AcceptedAt :: "int option"
  ServiceAccountName :: string
  WorkflowMeta :: "WorkflowMeta option"
  ExecutionConfig :: ExecutionConfig
  RawOutputDataConfig :: "RawOutputDataConfig option"

record PrepareFlyteWorkflowInput =
  ExecutionID :: "WorkflowExecutionIdentifier option"
  AcceptedAt :: int
  Labels :: "(string \<rightharpoonup> string) option"
  Annotations :: "(string \<rightharpoonup> string) option"
  TaskPluginOverrides :: "PluginOverride option list"
  ExecutionConfig :: "WorkflowExecutionConfig option"
  Auth :: "AuthRole option"
  RecoveryExecution :: "WorkflowExecutionIdentifier option"
  TaskResources :: "TaskResources option"
  EventVersion :: int
  RoleNameKey :: string
  RawOutputDataConfig :: "RawOutputDataConfig option"

text \<open>
  \<open>addMapValues\<close>: the loop over \<open>overrides\<close> stores each of its entries in
  \<open>defaultValues\<close>, so the entries of \<open>overrides\<close> win.
\<close>

definition addMapValues ::
  "(string \<rightharpoonup> string) option \<Rightarrow> (string \<rightharpoonup> string) option \<Rightarrow> (string \<rightharpoonup> string) option" where
  "addMapValues overrides defaultValues =
     (let defaultValues' = (case defaultValues of None \<Rightarrow> Map.empty | Some m \<Rightarrow> m)
      in case overrides of
           None \<Rightarrow> Some defaultValues'
         | Some ov \<Rightarrow> Some (defaultValues' ++ ov))"

definition addPermissions :: "AuthRole option \<Rightarrow> string \<Rightarrow> FlyteWorkflow \<Rightarrow> FlyteWorkflow" where
  "addPermissions auth roleNameKey flyteWf =
     (case auth of
        None \<Rightarrow> flyteWf
      | Some a \<Rightarrow>
          (let wf1 =
                 (if length (AssumableIamRole a) > 0
                  then flyteWf\<lparr>FlyteWorkflow.Annotations :=
                         Some ((case FlyteWorkflow.Annotations flyteWf of
                                  None \<Rightarrow> Map.empty
                                | Some m \<Rightarrow> m)(roleNameKey \<mapsto> AssumableIamRole a))\<rparr>
                  else flyteWf)
           in if length (KubernetesServiceAccount a) > 0
              then wf1\<lparr>ServiceAccountName := KubernetesServiceAccount a\<rparr>
              else wf1))"

text \<open>
  The loop over the plugin overrides reads \<open>override.TaskType\<close> through each pointer of
  the slice: a \<open>nil\<close> entry panics (\<open>None\<close>).
\<close>

fun addTaskPluginImpls ::
  "PluginOverride option list \<Rightarrow> (string \<rightharpoonup> TaskPluginOverride)
     \<Rightarrow> (string \<rightharpoonup> TaskPluginOverride) option" where
  "addTaskPluginImpls [] impls = Some impls"
| "addTaskPluginImpls (None # rest) impls = None"
| "addTaskPluginImpls (Some override # rest) impls =
     addTaskPluginImpls rest
       (impls(TaskType override \<mapsto>
          \<lparr>PluginIDs = PluginId override,
           TaskPluginOverride.MissingPluginBehavior = PluginOverride.MissingPluginBehavior override\<rparr>))"

text \<open>\<open>uint32(x)\<close> of an \<open>int32\<close> keeps the low 32 bits.\<close>

definition uint32 :: "int \<Rightarrow> nat" where
  "uint32 x = nat (x mod 2 ^ 32)"

text \<open>
  Each field of \<open>requests\<close> and \<open>limits\<close> starts as the zero quantity and is
  assigned from the task resources only when that quantity is not zero.
\<close>

definition nonzero :: "Quantity \<Rightarrow> Quantity" where
  "nonzero q = (if \<not> IsZero q then q else Quantity_zero)"

definition addExecutionOverrides ::
  "PluginOverride option list \<Rightarrow> WorkflowExecutionConfig option
     \<Rightarrow> WorkflowExecutionIdentifier option \<Rightarrow> TaskResources option \<Rightarrow> FlyteWorkflow
     \<Rightarrow> FlyteWorkflow option" where
  "addExecutionOverrides taskPluginOverrides workflowExecutionConfig recoveryExecution
       taskResources flyteWf =
     (case addTaskPluginImpls taskPluginOverrides Map.empty of
        None \<Rightarrow> None
      | Some impls \<Rightarrow>
          (let executionConfig =
                 \<lparr>TaskPluginImpls = Some impls,
                  ExecutionConfig.MaxParallelism = 0,
                  ExecutionConfig.RecoveryExecution = recoveryExecution,
                  ExecutionConfig.TaskResources =
                    \<lparr>Requests = TaskResourceSpec_zero,
                     v1alpha1_TaskResources.Limits = TaskResourceSpec_zero\<rparr>\<rparr>;
               executionConfig1 =
                 (case workflowExecutionConfig of
                    None \<Rightarrow> executionConfig
                  | Some wec \<Rightarrow>
                      executionConfig\<lparr>ExecutionConfig.MaxParallelism :=
                        uint32 (WorkflowExecutionConfig.MaxParallelism wec)\<rparr>);
               executionConfig2 =
                 (case taskResources of
                    None \<Rightarrow> executionConfig1
                  | Some tr \<Rightarrow>
                      executionConfig1\<lparr>ExecutionConfig.TaskResources :=
                        \<lparr>Requests =
                           \<lparr>TaskResourceSpec.CPU = nonzero (TaskResourceSet.CPU (Defaults tr)),
                            TaskResourceSpec.Memory = nonzero (TaskResourceSet.Memory (Defaults tr)),
                            TaskResourceSpec.EphemeralStorage =
                              nonzero (TaskResourceSet.EphemeralStorage (Defaults tr)),
                            TaskResourceSpec.Storage =
                              nonzero (TaskResourceSet.Storage (Defaults tr)),
                            TaskResourceSpec.GPU = nonzero (TaskResourceSet.GPU (Defaults tr))\<rparr>,
                         v1alpha1_TaskResources.Limits =
                           \<lparr>TaskResourceSpec.CPU =
                              nonzero (TaskResourceSet.CPU (TaskResources.Limits tr)),
                            TaskResourceSpec.Memory =
                              nonzero (TaskResourceSet.Memory (TaskResources.Limits tr)),
                            TaskResourceSpec.EphemeralStorage =
                              nonzero (TaskResourceSet.EphemeralStorage (TaskResources.Limits tr)),
                            TaskResourceSpec.Storage =
                              nonzero (TaskResourceSet.Storage (TaskResources.Limits tr)),
                            TaskResourceSpec.GPU =
                              nonzero (TaskResourceSet.GPU (TaskResources.Limits tr))\<rparr>\<rparr>\<rparr>)
           in Some (flyteWf\<lparr>FlyteWorkflow.ExecutionConfig := executionConfig2\<rparr>)))"

text \<open>
  \<open>PrepareFlyteWorkflow\<close> returns an error and changes the workflow behind the pointer:
  the result is the error with the workflow after the call (\<open>None\<close> when the pointer is
  \<open>nil\<close>), and the outer \<open>None\<close> is a panic.
\<close>

definition PrepareFlyteWorkflow ::
  "PrepareFlyteWorkflowInput \<Rightarrow> FlyteWorkflow option
     \<Rightarrow> (error option \<times> FlyteWorkflow option) option" where
  "PrepareFlyteWorkflow input flyteWorkflow =
     (if PrepareFlyteWorkflowInput.ExecutionID input = None
      then Some (Some (NewFlyteAdminErrorf codes_Internal ''invalid execution id''), flyteWorkflow)
      else case flyteWorkflow of
        None \<Rightarrow>
          Some (Some (NewFlyteAdminErrorf codes_Internal ''missing Flyte Workflow ''), flyteWorkflow)
      | Some wf0 \<Rightarrow>
          (let wf1 = wf0\<lparr>FlyteWorkflow.ExecutionID := PrepareFlyteWorkflowInput.ExecutionID input\<rparr>;
               wf2 = wf1\<lparr>FlyteWorkflow.AcceptedAt :=
                           Some (PrepareFlyteWorkflowInput.AcceptedAt input)\<rparr>;
               wf3 = addPermissions (Auth input) (RoleNameKey input) wf2;
               labels = addMapValues (PrepareFlyteWorkflowInput.Labels input)
                          (FlyteWorkflow.Labels wf3);
               wf4 = wf3\<lparr>FlyteWorkflow.Labels := labels\<rparr>;
               annotations = addMapValues (PrepareFlyteWorkflowInput.Annotations input)
                               (FlyteWorkflow.Annotations wf4);
               wf5 = wf4\<lparr>FlyteWorkflow.Annotations := annotations\<rparr>;
               wf6 = (if WorkflowMeta wf5 = None
                      then wf5\<lparr>WorkflowMeta := Some \<lparr>WorkflowMeta.EventVersion = 0\<rparr>\<rparr>
                      else wf5);
               wf7 = wf6\<lparr>WorkflowMeta :=
                       map_option
                         (\<lambda>m. m\<lparr>WorkflowMeta.EventVersion :=
                                   PrepareFlyteWorkflowInput.EventVersion input\<rparr>)
                         (WorkflowMeta wf6)\<rparr>
           in case addExecutionOverrides (TaskPluginOverrides input)
                     (PrepareFlyteWorkflowInput.ExecutionConfig input)
                     (PrepareFlyteWorkflowInput.RecoveryExecution input)
                     (PrepareFlyteWorkflowInput.TaskResources input) wf7 of
                None \<Rightarrow> None
              | Some wf8 \<Rightarrow>
                  (let wf9 =
                         (if PrepareFlyteWorkflowInput.RawOutputDataConfig input \<noteq> None
                          then wf8\<lparr>FlyteWorkflow.RawOutputDataConfig :=
                                 PrepareFlyteWorkflowInput.RawOutputDataConfig input\<rparr>
                          else wf8)
                   in Some (None, Some wf9))))"

section \<open>Example inputs\<close>

text \<open>
  Concrete collaborators and options on which the theorems below are run: a secret
  manager holding the two cookie keys and the client secret, an identity provider at
  \<open>https://idp.example\<close>, a file system with one secret file, and a service reached
  at \<open>https://a.example\<close>.
\<close>

definition example_sm :: SecretManager where
  "example_sm name =
     (if name = ''cookie_hash_key'' then Inr ''aGFzaA==''
      else if name = ''cookie_block_key'' then Inr ''YmxvY2s=''
      else if name = ''oidc_client_secret'' then Inr (''s3cret'' @ [CHR 0x0A])
      else Inl (ErrorString ''secret not found''))"

text \<open>
  An escaping for the examples: a space is written \<open>%20\<close> and every other character
  as it is, which is what the library does on the hosts and paths of the examples.
\<close>

fun example_escape :: "string \<Rightarrow> string" where
  "example_escape [] = []"
| "example_escape (c # s) = (if c = CHR 0x20 then ''%20'' else [c]) @ example_escape s"

definition example_escaping :: url_escaping where
  "example_escaping =
     \<lparr>escapeHost = example_escape, escapeUserPassword = example_escape,
      EscapedPath = example_escape, EscapedFragment = example_escape\<rparr>"

definition example_env :: env where
  "example_env =
     \<lparr>NewCookieManager =
        (\<lambda>h b. if h = '''' \<or> b = '''' then Inl (ErrorString ''invalid key'')
               else Inr \<lparr>hashKey = h, blockKey = b\<rparr>),
      oidc_NewProvider =
        (\<lambda>client baseURL.
           if baseURL = ''https://idp.example''
           then Inr \<lparr>issuer = baseURL,
                     Provider_Endpoint =
                       \<lparr>AuthURL = ''https://idp.example/authorize'',
                        TokenURL = ''https://idp.example/token'', AuthStyle = 0\<rparr>\<rparr>
           else Inl (ErrorString ''discovery failed'')),
      url_Parse =
        (\<lambda>s. if s = '':'' then Inl (ErrorString ''missing protocol scheme'')
             else Inr (URL_zero\<lparr>Path := s\<rparr>)),
      ioutil_ReadFile =
        (\<lambda>path. if path = ''/etc/secrets/client_secret'' then Inr (''s3cret'' @ [CHR 0x0A])
                else Inl (ErrorString ''no such file or directory'')),
      OAuth2MetadataEndpoint = ''/.well-known/oauth-authorization-server'',
      OIdCMetadataEndpoint = ''/.well-known/openid-configuration'',
      GetAuthenticationInterceptor =
        (\<lambda>c ctx. (ctx, Some (ErrorString ''unauthenticated''))),
      escaping = example_escaping\<rparr>"

definition example_openid :: OpenIDOptions where
  "example_openid =
     \<lparr>OpenIDOptions.ClientID = ''flyteadmin'',
      ClientSecretName = ''oidc_client_secret'',
      DeprecatedClientSecretFile = '''',
      BaseURL = URL_zero\<lparr>Scheme := ''https'', Host := ''idp.example''\<rparr>,
      OpenIDOptions.Scopes = [''openid'', ''profile'']\<rparr>"

definition example_options :: Config where
  "example_options =
     \<lparr>UserAuth =
        \<lparr>CookieHashKeySecretName = ''cookie_hash_key'',
         CookieBlockKeySecretName = ''cookie_block_key'',
         OpenID = example_openid\<rparr>,
      HTTPPublicUri = URL_zero\<lparr>Scheme := ''https'', Host := ''a.example''\<rparr>\<rparr>"

definition example_default :: oauth2_Config where
  "example_default =
     \<lparr>oauth2_Config.ClientID = ''flyteadmin'', ClientSecret = ''s3cret'',
      Endpoint =
        \<lparr>AuthURL = ''https://idp.example/authorize'',
         TokenURL = ''https://idp.example/token'', AuthStyle = 0\<rparr>,
      RedirectURL = ''https://a.example/callback'',
      oauth2_Config.Scopes = [''openid'', ''profile'']\<rparr>"

definition example_interceptor :: AuthFunc where
  "example_interceptor ctx =
     (if (''authorization'', ''Bearer good'') \<in> set ctx then (ctx, None)
      else (ctx, Some (ErrorString ''unauthenticated'')))"

definition example_handler :: UnaryHandler where
  "example_handler log ctx req = (log @ [HandlerRan req], Inr ''ok'')"

definition example_serve_env :: "unit serve_env" where
  "example_serve_env =
     \<lparr>auth_GetAuthenticationInterceptor = (\<lambda>ac. example_interceptor),
      auth_AuthenticationLoggingInterceptor = (\<lambda>log ctx req info handler. handler log ctx req),
      auth_GetLoginHandler = (\<lambda>ac w r. WriteHeader w 307),
      auth_RefreshTokensIfExists = (\<lambda>ac handler. handler),
      auth_GetCallbackHandler = (\<lambda>ac w r. WriteHeader w 307),
      flyteService_Asset = (\<lambda>name. Inr ''{}''),
      RegisterAdminServiceHandlerFromEndpoint =
        (\<lambda>gwmux address.
           if address = '''' then (Some (ErrorString ''empty address''), gwmux)
           else (None, gwmux\<lparr>registered := [address]\<rparr>)),
      gwmux_ServeHTTP = (\<lambda>gwmux w r. WriteHeader w 404)\<rparr>"

definition example_config :: "bool \<Rightarrow> ServerConfig" where
  "example_config useAuth =
     \<lparr>Security = \<lparr>Secure = True, UseAuth = useAuth\<rparr>, KubeConfig = '''', Master = ''''\<rparr>"

definition example_request :: "int \<Rightarrow> string \<Rightarrow> http_Request" where
  "example_request major contentType =
     \<lparr>ProtoMajor = major, Header = [''Content-Type'' \<mapsto> [contentType]], URL_Path = ''/''\<rparr>"

definition example_workflow :: FlyteWorkflow where
  "example_workflow =
     \<lparr>FlyteWorkflow.Labels = None, FlyteWorkflow.Annotations = None,
      FlyteWorkflow.ExecutionID = None, FlyteWorkflow.AcceptedAt = None,
      ServiceAccountName = '''', WorkflowMeta = None,
      FlyteWorkflow.ExecutionConfig =
        \<lparr>TaskPluginImpls = None, ExecutionConfig.MaxParallelism = 0,
         ExecutionConfig.RecoveryExecution = None,
         ExecutionConfig.TaskResources =
           \<lparr>Requests = TaskResourceSpec_zero,
            v1alpha1_TaskResources.Limits = TaskResourceSpec_zero\<rparr>\<rparr>,
      FlyteWorkflow.RawOutputDataConfig = None\<rparr>"

definition example_input ::
  "WorkflowExecutionIdentifier option \<Rightarrow> PluginOverride option list
     \<Rightarrow> PrepareFlyteWorkflowInput" where
  "example_input executionID overrides =
     \<lparr>PrepareFlyteWorkflowInput.ExecutionID = executionID,
      PrepareFlyteWorkflowInput.AcceptedAt = 1600000000,
      PrepareFlyteWorkflowInput.Labels = None,
      PrepareFlyteWorkflowInput.Annotations = None,
      TaskPluginOverrides = overrides,
      PrepareFlyteWorkflowInput.ExecutionConfig = None,
      Auth = None,
      PrepareFlyteWorkflowInput.RecoveryExecution = None,
      PrepareFlyteWorkflowInput.TaskResources = None,
      PrepareFlyteWorkflowInput.EventVersion = 1,
      RoleNameKey = ''iam.amazonaws.com/role'',
      PrepareFlyteWorkflowInput.RawOutputDataConfig = None\<rparr>"

definition example_id :: WorkflowExecutionIdentifier where
  "example_id = \<lparr>Project = ''flytesnacks'', Domain = ''development'', Name = ''exec1''\<rparr>"

section \<open>Facts about the library functions\<close>

lemma strings_Contains_sublist: "strings_Contains s substr \<longleftrightarrow> sublist substr s"
  by (induction s) (auto simp: sublist_Cons_right)

text \<open>
  What \<open>String\<close> writes for a request URL resolved against a reference that is only a
  path: scheme, userinfo and host are the request's, the path is the reference's.
\<close>

lemma URL_String_resolved:
  "URL_String esc (ResolveReference u (URL_zero\<lparr>Path := p\<rparr>)) =
     (let scheme = (if Scheme u \<noteq> '''' then Scheme u @ '':'' else '''');
          authority =
            (if Scheme u \<noteq> '''' \<or> Host u \<noteq> '''' \<or> User u \<noteq> None
             then (if Host u \<noteq> '''' \<or> p \<noteq> '''' \<or> User u \<noteq> None then ''//'' else '''')
                  @ (case User u of None \<Rightarrow> '''' | Some ui \<Rightarrow> Userinfo_String esc ui @ ''@'')
                  @ (if Host u \<noteq> '''' then escapeHost esc (Host u) else '''')
             else '''');
          path = EscapedPath esc p;
          slash = (if path \<noteq> '''' \<and> hd path \<noteq> CHR ''/'' \<and> Host u \<noteq> '''' then ''/'' else '''');
          dot = (if scheme @ authority @ slash = ''''
                    \<and> CHR '':'' \<in> set (takeWhile (\<lambda>c. c \<noteq> CHR ''/'') path)
                 then ''./'' else '''')
      in scheme @ authority @ slash @ dot @ path)"
  by (simp add: URL_String_def ResolveReference_def URL_zero_def Let_def)

lemma callback_after_root:
  assumes "EscapedPath esc ''/'' = ''/''" and "EscapedPath esc ''/callback'' = ''/callback''"
  shows "URL_String esc (ResolveReference u callbackRelativeUrl)
           = URL_String esc (ResolveReference u rootRelativeUrl) @ ''callback''"
  using assms
  by (simp add: URL_String_resolved callbackRelativeUrl_def rootRelativeUrl_def Let_def)

lemma callback_String:
  assumes "EscapedPath esc ''/callback'' = ''/callback''"
    and "Scheme u \<noteq> ''''" and "Host u \<noteq> ''''" and "User u = None"
  shows "URL_String esc (ResolveReference u callbackRelativeUrl)
           = Scheme u @ ''://'' @ escapeHost esc (Host u) @ ''/callback''"
  using assms by (simp add: URL_String_resolved callbackRelativeUrl_def Let_def)

lemma root_String:
  assumes "EscapedPath esc ''/'' = ''/''"
    and "Scheme u \<noteq> ''''" and "Host u \<noteq> ''''" and "User u = None"
  shows "URL_String esc (ResolveReference u rootRelativeUrl)
           = Scheme u @ ''://'' @ escapeHost esc (Host u) @ ''/''"
  using assms by (simp add: URL_String_resolved rootRelativeUrl_def Let_def)

lemma example_escape_plain [simp]:
  "CHR 0x20 \<notin> set s \<Longrightarrow> example_escape s = s"
  by (induction s) auto

section \<open>The anonymous methods\<close>

text \<open>
  C1. The anonymous set holds exactly the two names of the auth service, compared as
  whole strings. For a name in the set \<open>AuthFuncOverride\<close> returns the context it was
  given and no error, whatever the interceptor is (even none). For any other name the
  result is the interceptor's result on the same context, and never an anonymous pass of
  its own: an error of the interceptor is returned as it is.
\<close>

theorem C1_AuthFuncOverride:
  "(name \<in> anonymousMethodNames \<longleftrightarrow>
      name = ''/flyteidl.service.AuthService/OAuth2Metadata''
      \<or> name = ''/flyteidl.service.AuthService/FlyteClient'')
   \<and> (name \<in> anonymousMethodNames \<longrightarrow> AuthFuncOverride s ctx name = Some (ctx, None))
   \<and> (name \<notin> anonymousMethodNames \<longrightarrow> authInterceptor s = Some f \<longrightarrow>
        AuthFuncOverride s ctx name = Some (f ctx))
   \<and> (name \<notin> anonymousMethodNames \<longrightarrow> authInterceptor s = Some f \<longrightarrow>
        snd (f ctx) = Some e \<longrightarrow> snd (the (AuthFuncOverride s ctx name)) = Some e)"
  by (simp add: AuthFuncOverride_def anonymousMethodNames_def)

theorem C1_AuthFuncOverride_witness:
  "AuthFuncOverride
     \<lparr>OAuth2MetadataProvider = Some 1, OIdCUserInfoProvider = Some 2,
      authInterceptor = Some example_interceptor\<rparr> []
     ''/flyteidl.service.AuthService/OAuth2Metadata''
     = Some ([], None)
   \<and> AuthFuncOverride
     \<lparr>OAuth2MetadataProvider = Some 1, OIdCUserInfoProvider = Some 2,
      authInterceptor = Some example_interceptor\<rparr> []
     ''/flyteidl.service.AuthService/FlyteClient''
     = Some ([], None)
   \<and> AuthFuncOverride
     \<lparr>OAuth2MetadataProvider = Some 1, OIdCUserInfoProvider = Some 2,
      authInterceptor = Some example_interceptor\<rparr> []
     ''/flyteidl.service.AuthService/OAuth2MetadataX''
     = Some ([], Some (ErrorString ''unauthenticated''))
   \<and> AuthFuncOverride
     \<lparr>OAuth2MetadataProvider = Some 1, OIdCUserInfoProvider = Some 2,
      authInterceptor = Some example_interceptor\<rparr> []
     ''/flyteidl.service.AuthService/UserInfo''
     = Some ([], Some (ErrorString ''unauthenticated''))"
  using C1_AuthFuncOverride [of "''/flyteidl.service.AuthService/OAuth2Metadata''"
          "\<lparr>OAuth2MetadataProvider = Some 1, OIdCUserInfoProvider = Some 2,
            authInterceptor = Some example_interceptor\<rparr>" "[]" example_interceptor]
        C1_AuthFuncOverride [of "''/flyteidl.service.AuthService/FlyteClient''"
          "\<lparr>OAuth2MetadataProvider = Some 1, OIdCUserInfoProvider = Some 2,
            authInterceptor = Some example_interceptor\<rparr>" "[]" example_interceptor]
        C1_AuthFuncOverride [of "''/flyteidl.service.AuthService/OAuth2MetadataX''"
          "\<lparr>OAuth2MetadataProvider = Some 1, OIdCUserInfoProvider = Some 2,
            authInterceptor = Some example_interceptor\<rparr>" "[]" example_interceptor]
        C1_AuthFuncOverride [of "''/flyteidl.service.AuthService/UserInfo''"
          "\<lparr>OAuth2MetadataProvider = Some 1, OIdCUserInfoProvider = Some 2,
            authInterceptor = Some example_interceptor\<rparr>" "[]" example_interceptor]
  by (simp add: example_interceptor_def)

section \<open>Per-host OAuth2 descriptors\<close>

text \<open>
  C2. For a request URL that is not \<open>nil\<close>, in a context whose default descriptor
  exists, and whatever the percent-escaping of the URL library does: when the request's
  root (the request URL resolved against \<open>/\<close>, as \<open>String\<close> renders it) is a prefix of
  the default redirect URL, \<open>OAuth2ClientConfig\<close> returns the pointer to the default
  descriptor and the store is as before. Otherwise it returns a pointer to a new
  descriptor; the default one is untouched, the new redirect URL is the request URL
  resolved against \<open>/callback\<close>, and client id, client secret, scopes and endpoint are
  those of the default. Where the library leaves the two paths \<open>/\<close> and \<open>/callback\<close>
  as they are, that redirect URL is the request's root followed by \<open>callback\<close>, and for
  a request with a scheme, a host and no userinfo it is the scheme, \<open>://\<close>, the escaped
  host and \<open>/callback\<close>. The two examples of the specification follow where the
  library also leaves the host names \<open>a.example\<close> and \<open>b.example\<close> as they are:
  with the default redirect \<open>https://a.example/callback\<close>, a request to
  \<open>https://b.example\<close> gets a new descriptor with \<open>https://b.example/callback\<close>, and
  a request to \<open>https://a.example\<close> gets the default.
\<close>

theorem C2_OAuth2ClientConfig_request:
  assumes "oauth2Client c = Some a" and "a < length h"
  shows "(prefix (URL_String esc (ResolveReference u rootRelativeUrl)) (RedirectURL (h ! a)) \<longrightarrow>
            OAuth2ClientConfig esc c h (Some u) = Some (Some a, h))
       \<and> (\<not> prefix (URL_String esc (ResolveReference u rootRelativeUrl)) (RedirectURL (h ! a)) \<longrightarrow>
            (\<exists>a' h'. OAuth2ClientConfig esc c h (Some u) = Some (Some a', h')
               \<and> a' \<noteq> a \<and> a' < length h' \<and> (\<forall>i < length h. h' ! i = h ! i)
               \<and> RedirectURL (h' ! a') = URL_String esc (ResolveReference u callbackRelativeUrl)
               \<and> oauth2_Config.ClientID (h' ! a') = oauth2_Config.ClientID (h ! a)
               \<and> ClientSecret (h' ! a') = ClientSecret (h ! a)
               \<and> oauth2_Config.Scopes (h' ! a') = oauth2_Config.Scopes (h ! a)
               \<and> Endpoint (h' ! a') = Endpoint (h ! a)))
       \<and> (EscapedPath esc ''/'' = ''/'' \<and> EscapedPath esc ''/callback'' = ''/callback'' \<longrightarrow>
            URL_String esc (ResolveReference u callbackRelativeUrl)
              = URL_String esc (ResolveReference u rootRelativeUrl) @ ''callback'')
       \<and> (EscapedPath esc ''/callback'' = ''/callback''
            \<and> Scheme u \<noteq> '''' \<and> Host u \<noteq> '''' \<and> User u = None \<longrightarrow>
            URL_String esc (ResolveReference u callbackRelativeUrl)
              = Scheme u @ ''://'' @ escapeHost esc (Host u) @ ''/callback'')
       \<and> (EscapedPath esc ''/'' = ''/'' \<and> EscapedPath esc ''/callback'' = ''/callback''
            \<and> escapeHost esc ''b.example'' = ''b.example''
            \<and> RedirectURL (h ! a) = ''https://a.example/callback''
            \<and> Scheme u = ''https'' \<and> Host u = ''b.example'' \<and> User u = None \<longrightarrow>
            (\<exists>a' h'. OAuth2ClientConfig esc c h (Some u) = Some (Some a', h')
               \<and> a' \<noteq> a \<and> RedirectURL (h' ! a') = ''https://b.example/callback''))
       \<and> (EscapedPath esc ''/'' = ''/''
            \<and> escapeHost esc ''a.example'' = ''a.example''
            \<and> RedirectURL (h ! a) = ''https://a.example/callback''
            \<and> Scheme u = ''https'' \<and> Host u = ''a.example'' \<and> User u = None \<longrightarrow>
            OAuth2ClientConfig esc c h (Some u) = Some (Some a, h))"
proof -
  have then_branch:
    "prefix (URL_String esc (ResolveReference u rootRelativeUrl)) (RedirectURL (h ! a)) \<Longrightarrow>
       OAuth2ClientConfig esc c h (Some u) = Some (Some a, h)"
    using assms by (simp add: OAuth2ClientConfig_def strings_HasPrefix_def)
  have else_branch:
    "\<not> prefix (URL_String esc (ResolveReference u rootRelativeUrl)) (RedirectURL (h ! a)) \<Longrightarrow>
       OAuth2ClientConfig esc c h (Some u)
         = Some (Some (length h),
                 h @ [\<lparr>oauth2_Config.ClientID = oauth2_Config.ClientID (h ! a),
                       ClientSecret = ClientSecret (h ! a),
                       Endpoint = Endpoint (h ! a),
                       RedirectURL = URL_String esc (ResolveReference u callbackRelativeUrl),
                       oauth2_Config.Scopes = oauth2_Config.Scopes (h ! a)\<rparr>])"
    using assms by (simp add: OAuth2ClientConfig_def strings_HasPrefix_def alloc_def)
  have b_example:
    "(\<exists>a' h'. OAuth2ClientConfig esc c h (Some u) = Some (Some a', h')
        \<and> a' \<noteq> a \<and> RedirectURL (h' ! a') = ''https://b.example/callback'')"
    if "EscapedPath esc ''/'' = ''/''" and "EscapedPath esc ''/callback'' = ''/callback''"
      and "escapeHost esc ''b.example'' = ''b.example''"
      and "RedirectURL (h ! a) = ''https://a.example/callback''"
      and "Scheme u = ''https''" and "Host u = ''b.example''" and "User u = None"
  proof -
    have root: "URL_String esc (ResolveReference u rootRelativeUrl) = ''https://b.example/''"
      using that by (simp add: root_String)
    have cb: "URL_String esc (ResolveReference u callbackRelativeUrl)
                = ''https://b.example/callback''"
      using that by (simp add: callback_String)
    have "\<not> prefix (URL_String esc (ResolveReference u rootRelativeUrl)) (RedirectURL (h ! a))"
      using that(4) by (simp add: root)
    from else_branch [OF this] assms show ?thesis
      by (simp add: cb nth_append)
  qed
  have a_example: "OAuth2ClientConfig esc c h (Some u) = Some (Some a, h)"
    if "EscapedPath esc ''/'' = ''/''" and "escapeHost esc ''a.example'' = ''a.example''"
      and "RedirectURL (h ! a) = ''https://a.example/callback''"
      and "Scheme u = ''https''" and "Host u = ''a.example''" and "User u = None"
  proof -
    have root: "URL_String esc (ResolveReference u rootRelativeUrl) = ''https://a.example/''"
      using that by (simp add: root_String)
    have "prefix (URL_String esc (ResolveReference u rootRelativeUrl)) (RedirectURL (h ! a))"
      using that(3) by (simp add: root)
    from then_branch [OF this] show ?thesis .
  qed
  show ?thesis
    using assms then_branch else_branch b_example a_example
    by (auto simp: nth_append callback_after_root callback_String)
qed

text \<open>
  The rule evaluated with the example escaping: the two examples above; a request to
  the host \<open>b b.example\<close>, whose redirect URL is written with the host escaped; and a
  default redirect that holds that host unescaped, which the escaped root is not a
  prefix of, so that a new descriptor is made.
\<close>

theorem C2_OAuth2ClientConfig_request_witness:
  "OAuth2ClientConfig example_escaping (Context_zero\<lparr>oauth2Client := Some 0\<rparr>)
     [example_default]
     (Some (URL_zero\<lparr>Scheme := ''https'', Host := ''b.example'', Path := ''/login''\<rparr>))
     = Some (Some 1, [example_default,
                      example_default\<lparr>RedirectURL := ''https://b.example/callback''\<rparr>])
   \<and> OAuth2ClientConfig example_escaping (Context_zero\<lparr>oauth2Client := Some 0\<rparr>)
     [example_default]
     (Some (URL_zero\<lparr>Scheme := ''https'', Host := ''a.example'', Path := ''/login''\<rparr>))
     = Some (Some 0, [example_default])
   \<and> OAuth2ClientConfig example_escaping (Context_zero\<lparr>oauth2Client := Some 0\<rparr>)
     [example_default]
     (Some (URL_zero\<lparr>Scheme := ''https'', Host := ''b b.example'', Path := ''/login''\<rparr>))
     = Some (Some 1, [example_default,
                      example_default\<lparr>RedirectURL := ''https://b%20b.example/callback''\<rparr>])
   \<and> OAuth2ClientConfig example_escaping (Context_zero\<lparr>oauth2Client := Some 0\<rparr>)
     [example_default\<lparr>RedirectURL := ''https://b b.example/callback''\<rparr>]
     (Some (URL_zero\<lparr>Scheme := ''https'', Host := ''b b.example'', Path := ''/login''\<rparr>))
     = Some (Some 1, [example_default\<lparr>RedirectURL := ''https://b b.example/callback''\<rparr>,
                      example_default\<lparr>RedirectURL := ''https://b%20b.example/callback''\<rparr>])"
  using C2_OAuth2ClientConfig_request [where c = "Context_zero\<lparr>oauth2Client := Some 0\<rparr>"
          and a = 0 and h = "[example_default]" and esc = example_escaping
          and u = "URL_zero\<lparr>Scheme := ''https'', Host := ''b.example'', Path := ''/login''\<rparr>"]
        C2_OAuth2ClientConfig_request [where c = "Context_zero\<lparr>oauth2Client := Some 0\<rparr>"
          and a = 0 and h = "[example_default]" and esc = example_escaping
          and u = "URL_zero\<lparr>Scheme := ''https'', Host := ''a.example'', Path := ''/login''\<rparr>"]
        C2_OAuth2ClientConfig_request [where c = "Context_zero\<lparr>oauth2Client := Some 0\<rparr>"
          and a = 0 and h = "[example_default]" and esc = example_escaping
          and u = "URL_zero\<lparr>Scheme := ''https'', Host := ''b b.example'', Path := ''/login''\<rparr>"]
  by (simp add: OAuth2ClientConfig_def Context_zero_def example_default_def URL_zero_def
        strings_HasPrefix_def URL_String_def ResolveReference_def rootRelativeUrl_def
        callbackRelativeUrl_def alloc_def Let_def example_escaping_def)

text \<open>
  C9. With a \<open>nil\<close> request URL \<open>OAuth2ClientConfig\<close> returns the pointer held by the
  context itself, the same address and not a new one, and the store is as before: nothing
  is allocated or changed.
\<close>

theorem C9_OAuth2ClientConfig_nil:
  "OAuth2ClientConfig esc c h None = Some (oauth2Client c, h)"
  by (simp add: OAuth2ClientConfig_def)

section \<open>The protocol demultiplexer\<close>

text \<open>
  C5. The handler built by \<open>grpcHandlerFunc\<close> hands a request to the gRPC server when
  its protocol major version is 2 and its \<open>Content-Type\<close> contains \<open>application/grpc\<close>;
  a request with another protocol version goes to the other handler whatever its content
  type, and so does a request whose content type does not contain \<open>application/grpc\<close>
  whatever its protocol version. With two handlers that can be told apart the gRPC
  server is chosen exactly in the first case.
\<close>

theorem C5_grpcHandlerFunc:
  "(ProtoMajor r = 2 \<and> sublist ''application/grpc'' (Header_Get (Header r) ''Content-Type'')
      \<longrightarrow> grpcHandlerFunc grpcServer otherHandler w r = grpcServer w r)
   \<and> (ProtoMajor r \<noteq> 2 \<longrightarrow> grpcHandlerFunc grpcServer otherHandler w r = otherHandler w r)
   \<and> (\<not> sublist ''application/grpc'' (Header_Get (Header r) ''Content-Type'')
      \<longrightarrow> grpcHandlerFunc grpcServer otherHandler w r = otherHandler w r)
   \<and> (grpcHandlerFunc (\<lambda>w r. True) (\<lambda>w r. False) b r \<longleftrightarrow>
        ProtoMajor r = 2 \<and> sublist ''application/grpc'' (Header_Get (Header r) ''Content-Type''))"
  by (simp add: grpcHandlerFunc_def strings_Contains_sublist)

theorem C5_grpcHandlerFunc_witness:
  "grpcHandlerFunc (\<lambda>w r. ''grpc'') (\<lambda>w r. ''http'') ''''
     (example_request 2 ''application/grpc'') = ''grpc''
   \<and> grpcHandlerFunc (\<lambda>w r. ''grpc'') (\<lambda>w r. ''http'') ''''
     (example_request 2 ''application/grpc+proto'') = ''grpc''
   \<and> grpcHandlerFunc (\<lambda>w r. ''grpc'') (\<lambda>w r. ''http'') ''''
     (example_request 1 ''application/grpc'') = ''http''
   \<and> grpcHandlerFunc (\<lambda>w r. ''grpc'') (\<lambda>w r. ''http'') ''''
     (example_request 2 ''application/json'') = ''http''
   \<and> grpcHandlerFunc (\<lambda>w r. ''grpc'') (\<lambda>w r. ''http'') ''''
     (example_request 1 ''application/json'') = ''http''"
  using C5_grpcHandlerFunc [of "example_request 2 ''application/grpc''"
          "\<lambda>w r. ''grpc''" "\<lambda>w r. ''http''" "''''"]
        C5_grpcHandlerFunc [of "example_request 1 ''application/grpc''"
          "\<lambda>w r. ''grpc''" "\<lambda>w r. ''http''" "''''"]
        C5_grpcHandlerFunc [of "example_request 2 ''application/json''"
          "\<lambda>w r. ''grpc''" "\<lambda>w r. ''http''" "''''"]
  by (simp add: grpcHandlerFunc_def example_request_def Header_Get_def)

section \<open>Construction of the authentication context\<close>

lemma NewAuthenticationContext_nil_options:
  "NewAuthenticationContext e h sm p rs mp ip None = None"
  by (simp add: NewAuthenticationContext_def)

text \<open>
  C3. With options that are not \<open>nil\<close>, \<open>NewAuthenticationContext\<close> returns, and
  returns one of two things. Either the error is set, and then the context is the zero
  value \<open>Context{}\<close> and nothing was allocated; or the error is \<open>nil\<close>, and then the
  context holds a freshly allocated OAuth2 descriptor, the cookie manager, the OIDC
  provider, the options, the two providers it was given, the two metadata URLs, the HTTP
  client with the ten second timeout and the auth service with its interceptor. Whenever
  a step fails (either secret, the cookie manager, OIDC discovery, the OAuth2
  configuration, either metadata URL) the error is set.
\<close>

theorem C3_NewAuthenticationContext_atomic:
  "\<exists>c err h'. NewAuthenticationContext e h sm p rs mp ip (Some opts) = Some ((c, err), h')
     \<and> (err \<noteq> None \<longrightarrow> c = Context_zero \<and> h' = h)
     \<and> (err = None \<longrightarrow>
           oauth2Client c = Some (length h) \<and> length h < length h'
           \<and> cookieManager c \<noteq> None \<and> oidcProvider c \<noteq> None \<and> options c = Some opts
           \<and> oauth2Provider c = p \<and> oauth2ResourceServer c = rs
           \<and> oauth2MetadataURL c \<noteq> None \<and> oidcMetadataURL c \<noteq> None
           \<and> httpClient c = Some \<lparr>Timeout = IdpConnectionTimeout\<rparr>
           \<and> (\<exists>w. AuthServiceImpl c = Some w \<and> authInterceptor w \<noteq> None
                 \<and> OAuth2MetadataProvider w = mp \<and> OIdCUserInfoProvider w = ip))
     \<and> ((\<exists>x. sm (CookieHashKeySecretName (UserAuth opts)) = Inl x) \<longrightarrow> err \<noteq> None)
     \<and> ((\<exists>x. sm (CookieBlockKeySecretName (UserAuth opts)) = Inl x) \<longrightarrow> err \<noteq> None)
     \<and> (\<forall>hk bk x. sm (CookieHashKeySecretName (UserAuth opts)) = Inr hk
            \<longrightarrow> sm (CookieBlockKeySecretName (UserAuth opts)) = Inr bk
            \<longrightarrow> NewCookieManager e hk bk = Inl x \<longrightarrow> err \<noteq> None)
     \<and> ((\<exists>x. oidc_NewProvider e \<lparr>Timeout = IdpConnectionTimeout\<rparr>
                 (URL_String (escaping e) (BaseURL (OpenID (UserAuth opts)))) = Inl x) \<longrightarrow> err \<noteq> None)
     \<and> (\<forall>prov x. oidc_NewProvider e \<lparr>Timeout = IdpConnectionTimeout\<rparr>
                 (URL_String (escaping e) (BaseURL (OpenID (UserAuth opts)))) = Inr prov
            \<longrightarrow> snd (GetOAuth2ClientConfig e (OpenID (UserAuth opts)) (HTTPPublicUri opts)
                       (Provider_Endpoint prov) sm) = Some x
            \<longrightarrow> err \<noteq> None)
     \<and> ((\<exists>x. url_Parse e (OAuth2MetadataEndpoint e) = Inl x) \<longrightarrow> err \<noteq> None)
     \<and> ((\<exists>x. url_Parse e (OIdCMetadataEndpoint e) = Inl x) \<longrightarrow> err \<noteq> None)"
  by (simp add: NewAuthenticationContext_def alloc_def Let_def
        split: sum.split prod.split option.split)

theorem C3_NewAuthenticationContext_atomic_witness:
  "NewAuthenticationContext example_env [] (\<lambda>name. Inl (ErrorString ''secret not found''))
       (Some 1) (Some 2) (Some 3) (Some 4) (Some example_options)
     = Some ((Context_zero,
              Some (ErrorWithCause ''CONFIG_OPTION_FILE_READ_FAILED''
                      ''Could not read hash key file'' (ErrorString ''secret not found''))), [])
   \<and> snd (fst (the (NewAuthenticationContext example_env [] example_sm
                      (Some 1) (Some 2) (Some 3) (Some 4) (Some example_options)))) = None
   \<and> oauth2Client (fst (fst (the (NewAuthenticationContext example_env [] example_sm
                      (Some 1) (Some 2) (Some 3) (Some 4) (Some example_options))))) = Some 0
   \<and> snd (the (NewAuthenticationContext example_env [] example_sm
                 (Some 1) (Some 2) (Some 3) (Some 4) (Some example_options)))
       = [example_default]"
  using C3_NewAuthenticationContext_atomic [of example_env "[]"
          "\<lambda>name. Inl (ErrorString ''secret not found'')" "Some 1" "Some 2" "Some 3" "Some 4"
          example_options]
        C3_NewAuthenticationContext_atomic [of example_env "[]" example_sm
          "Some 1" "Some 2" "Some 3" "Some 4" example_options]
  by (simp add: NewAuthenticationContext_def GetOAuth2ClientConfig_def example_env_def
        example_sm_def example_options_def example_openid_def example_default_def
        errors_Wrapf_def ErrConfigFileRead_def alloc_def Let_def URL_String_def URL_zero_def
        example_escaping_def
        ResolveReference_def callbackRelativeUrl_def strings_TrimSuffix_def suffix_def)

text \<open>
  C4. The error code of each failure. A failure to fetch the hash key or the block key
  gives an error with code \<open>CONFIG_OPTION_FILE_READ_FAILED\<close>; a failure of the cookie
  manager's constructor, of OIDC discovery, of \<open>GetOAuth2ClientConfig\<close> or of parsing
  either metadata URL gives one with code \<open>AUTH_CONTEXT_SETUP_FAILED\<close>. Each error
  wraps the failure \<open>x\<close> of the step and comes with the zero context. A step is reached
  when the steps before it succeeded, which is what the premises of each line say.
\<close>

theorem C4_NewAuthenticationContext_error_codes:
  fixes e :: env and sm :: SecretManager and opts :: Config and h :: heap
    and p rs mp ip :: "nat option"
  defines "hashName \<equiv> CookieHashKeySecretName (UserAuth opts)"
      and "blockName \<equiv> CookieBlockKeySecretName (UserAuth opts)"
      and "discovery \<equiv> oidc_NewProvider e \<lparr>Timeout = IdpConnectionTimeout\<rparr>
                          (URL_String (escaping e) (BaseURL (OpenID (UserAuth opts))))"
      and "clientConfig \<equiv> (\<lambda>prov. GetOAuth2ClientConfig e (OpenID (UserAuth opts))
                              (HTTPPublicUri opts) (Provider_Endpoint prov) sm)"
      and "failed \<equiv> (\<lambda>code cause. \<exists>msg.
                        NewAuthenticationContext e h sm p rs mp ip (Some opts)
                          = Some ((Context_zero, Some (ErrorWithCause code msg cause)), h))"
  shows "(sm hashName = Inl x \<longrightarrow> failed ''CONFIG_OPTION_FILE_READ_FAILED'' x)
       \<and> (sm hashName = Inr hk \<longrightarrow> sm blockName = Inl x
            \<longrightarrow> failed ''CONFIG_OPTION_FILE_READ_FAILED'' x)
       \<and> (sm hashName = Inr hk \<longrightarrow> sm blockName = Inr bk
            \<longrightarrow> NewCookieManager e hk bk = Inl x
            \<longrightarrow> failed ''AUTH_CONTEXT_SETUP_FAILED'' x)
       \<and> (sm hashName = Inr hk \<longrightarrow> sm blockName = Inr bk
            \<longrightarrow> NewCookieManager e hk bk = Inr cm \<longrightarrow> discovery = Inl x
            \<longrightarrow> failed ''AUTH_CONTEXT_SETUP_FAILED'' x)
       \<and> (sm hashName = Inr hk \<longrightarrow> sm blockName = Inr bk
            \<longrightarrow> NewCookieManager e hk bk = Inr cm \<longrightarrow> discovery = Inr prov
            \<longrightarrow> clientConfig prov = (cfg, Some x)
            \<longrightarrow> failed ''AUTH_CONTEXT_SETUP_FAILED'' x)
       \<and> (sm hashName = Inr hk \<longrightarrow> sm blockName = Inr bk
            \<longrightarrow> NewCookieManager e hk bk = Inr cm \<longrightarrow> discovery = Inr prov
            \<longrightarrow> clientConfig prov = (cfg, None)
            \<longrightarrow> url_Parse e (OAuth2MetadataEndpoint e) = Inl x
            \<longrightarrow> failed ''AUTH_CONTEXT_SETUP_FAILED'' x)
       \<and> (sm hashName = Inr hk \<longrightarrow> sm blockName = Inr bk
            \<longrightarrow> NewCookieManager e hk bk = Inr cm \<longrightarrow> discovery = Inr prov
            \<longrightarrow> clientConfig prov = (cfg, None)
            \<longrightarrow> url_Parse e (OAuth2MetadataEndpoint e) = Inr u1
            \<longrightarrow> url_Parse e (OIdCMetadataEndpoint e) = Inl x
            \<longrightarrow> failed ''AUTH_CONTEXT_SETUP_FAILED'' x)"
  unfolding hashName_def blockName_def discovery_def clientConfig_def failed_def
  by (simp add: NewAuthenticationContext_def Let_def errors_Wrapf_def
        ErrConfigFileRead_def ErrauthCtx_def)

theorem C4_NewAuthenticationContext_error_codes_witness:
  "map_option error_code (snd (fst (the (NewAuthenticationContext example_env []
       (example_sm(''cookie_hash_key'' := Inl (ErrorString ''secret not found'')))
       None None None None (Some example_options)))))
     = Some (Some ''CONFIG_OPTION_FILE_READ_FAILED'')
   \<and> map_option error_code (snd (fst (the (NewAuthenticationContext example_env []
       (example_sm(''cookie_block_key'' := Inl (ErrorString ''secret not found'')))
       None None None None (Some example_options)))))
     = Some (Some ''CONFIG_OPTION_FILE_READ_FAILED'')
   \<and> map_option error_code (snd (fst (the (NewAuthenticationContext example_env []
       (example_sm(''cookie_block_key'' := Inr ''''))
       None None None None (Some example_options)))))
     = Some (Some ''AUTH_CONTEXT_SETUP_FAILED'')
   \<and> map_option error_code (snd (fst (the (NewAuthenticationContext
       (example_env\<lparr>oidc_NewProvider := (\<lambda>client baseURL. Inl (ErrorString ''discovery failed''))\<rparr>)
       [] example_sm None None None None (Some example_options)))))
     = Some (Some ''AUTH_CONTEXT_SETUP_FAILED'')
   \<and> map_option error_code (snd (fst (the (NewAuthenticationContext example_env []
       (example_sm(''oidc_client_secret'' := Inl (ErrorString ''secret not found'')))
       None None None None (Some example_options)))))
     = Some (Some ''AUTH_CONTEXT_SETUP_FAILED'')
   \<and> map_option error_code (snd (fst (the (NewAuthenticationContext
       (example_env\<lparr>OAuth2MetadataEndpoint := '':''\<rparr>)
       [] example_sm None None None None (Some example_options)))))
     = Some (Some ''AUTH_CONTEXT_SETUP_FAILED'')
   \<and> map_option error_code (snd (fst (the (NewAuthenticationContext
       (example_env\<lparr>OIdCMetadataEndpoint := '':''\<rparr>)
       [] example_sm None None None None (Some example_options)))))
     = Some (Some ''AUTH_CONTEXT_SETUP_FAILED'')"
  using C4_NewAuthenticationContext_error_codes [where e = example_env and h = "[]"
          and sm = "example_sm(''cookie_hash_key'' := Inl (ErrorString ''secret not found''))"
          and opts = example_options and p = None and rs = None and mp = None and ip = None]
        C4_NewAuthenticationContext_error_codes [where e = example_env and h = "[]"
          and sm = "example_sm(''cookie_block_key'' := Inl (ErrorString ''secret not found''))"
          and opts = example_options and p = None and rs = None and mp = None and ip = None]
        C4_NewAuthenticationContext_error_codes [where e = example_env and h = "[]"
          and sm = "example_sm(''cookie_block_key'' := Inr '''')"
          and opts = example_options and p = None and rs = None and mp = None and ip = None]
        C4_NewAuthenticationContext_error_codes [where h = "[]" and sm = example_sm
          and e = "example_env\<lparr>oidc_NewProvider :=
                     (\<lambda>client baseURL. Inl (ErrorString ''discovery failed''))\<rparr>"
          and opts = example_options and p = None and rs = None and mp = None and ip = None]
        C4_NewAuthenticationContext_error_codes [where e = example_env and h = "[]"
          and sm = "example_sm(''oidc_client_secret'' := Inl (ErrorString ''secret not found''))"
          and opts = example_options and p = None and rs = None and mp = None and ip = None]
        C4_NewAuthenticationContext_error_codes [where h = "[]" and sm = example_sm
          and e = "example_env\<lparr>OAuth2MetadataEndpoint := '':''\<rparr>"
          and opts = example_options and p = None and rs = None and mp = None and ip = None]
        C4_NewAuthenticationContext_error_codes [where h = "[]" and sm = example_sm
          and e = "example_env\<lparr>OIdCMetadataEndpoint := '':''\<rparr>"
          and opts = example_options and p = None and rs = None and mp = None and ip = None]
  by (simp add: NewAuthenticationContext_def GetOAuth2ClientConfig_def example_env_def
        example_sm_def example_options_def example_openid_def
        errors_Wrapf_def ErrConfigFileRead_def ErrauthCtx_def alloc_def Let_def
        URL_String_def URL_zero_def example_escaping_def)

section \<open>The OAuth2 client configuration\<close>

text \<open>
  What \<open>GetOAuth2ClientConfig\<close> does on its two paths. Without the deprecated option
  the secret comes from the secret manager under \<open>ClientSecretName\<close>. With the
  deprecated option set, the file that is read is the one named by \<open>ClientSecretName\<close>:
  the path in \<open>DeprecatedClientSecretFile\<close> is only tested for being non-empty. On
  both paths one trailing newline is removed and the redirect URL is the public URL
  resolved against \<open>/callback\<close>.
\<close>

lemma strings_TrimSuffix_newline:
  "strings_TrimSuffix (s @ [CHR 0x0A]) [CHR 0x0A] = s"
  "strings_TrimSuffix (s @ [CHR 0x0A, CHR 0x0A]) [CHR 0x0A] = s @ [CHR 0x0A]"
  "\<not> suffix [CHR 0x0A] s \<Longrightarrow> strings_TrimSuffix s [CHR 0x0A] = s"
  by (simp_all add: strings_TrimSuffix_def suffix_def)

lemma GetOAuth2ClientConfig_secret_manager:
  assumes "DeprecatedClientSecretFile opts = ''''" and "sm (ClientSecretName opts) = Inr secret"
  shows "GetOAuth2ClientConfig e opts publicHTTPBaseUrl providerEndpoints sm =
           (\<lparr>oauth2_Config.ClientID = OpenIDOptions.ClientID opts,
             ClientSecret = strings_TrimSuffix secret [CHR 0x0A],
             Endpoint = providerEndpoints,
             RedirectURL = URL_String (escaping e) (ResolveReference publicHTTPBaseUrl callbackRelativeUrl),
             oauth2_Config.Scopes = OpenIDOptions.Scopes opts\<rparr>, None)"
  using assms by (simp add: GetOAuth2ClientConfig_def)

lemma GetOAuth2ClientConfig_deprecated_file:
  assumes "DeprecatedClientSecretFile opts \<noteq> ''''"
  shows "GetOAuth2ClientConfig e opts publicHTTPBaseUrl providerEndpoints sm =
           (case ioutil_ReadFile e (ClientSecretName opts) of
              Inl err \<Rightarrow> (oauth2_Config_zero, Some err)
            | Inr secret \<Rightarrow>
                (\<lparr>oauth2_Config.ClientID = OpenIDOptions.ClientID opts,
                  ClientSecret = strings_TrimSuffix secret [CHR 0x0A],
                  Endpoint = providerEndpoints,
                  RedirectURL =
                    URL_String (escaping e) (ResolveReference publicHTTPBaseUrl callbackRelativeUrl),
                  oauth2_Config.Scopes = OpenIDOptions.Scopes opts\<rparr>, None))"
  using assms by (simp add: GetOAuth2ClientConfig_def)

text \<open>
  C6. When the deprecated client-secret-file option is set, the secret is to be read
  from the file it names. The code does not do that. In the example file system the
  client secret is stored in \<open>/etc/secrets/client_secret\<close>, and the options name that
  path in \<open>DeprecatedClientSecretFile\<close> while \<open>ClientSecretName\<close> is the secret's name
  \<open>oidc_client_secret\<close>. The call does not read the file of the deprecated option: it
  tries to open a file called \<open>oidc_client_secret\<close> and returns that file's error
  with the zero configuration.
\<close>

theorem C6_GetOAuth2ClientConfig_reads_secret_name_as_path:
  "ioutil_ReadFile example_env ''/etc/secrets/client_secret'' = Inr (''s3cret'' @ [CHR 0x0A])
   \<and> GetOAuth2ClientConfig example_env
       (example_openid\<lparr>DeprecatedClientSecretFile := ''/etc/secrets/client_secret''\<rparr>)
       (HTTPPublicUri example_options) oauth2_Endpoint_zero example_sm
     = (oauth2_Config_zero, Some (ErrorString ''no such file or directory''))"
  by (simp add: GetOAuth2ClientConfig_def example_env_def example_openid_def)

section \<open>The order of the interceptors\<close>

text \<open>
  C7. In the server built with \<open>UseAuth\<close> set, a unary call first reaches the
  prometheus interceptor, which records the start, then the authentication interceptor.
  The authentication is the service's own \<open>AuthFuncOverride\<close> when it has one and the
  interceptor of the auth package otherwise.
  When authentication fails the call ends there: the events are the start, the
  authentication and the outcome recorded by the prometheus interceptor, which is the
  authentication error itself; no event of the logging interceptor or of the handler is
  among them, whatever they are. When authentication succeeds the logging interceptor
  and, through it, the handler run on the new context with the authentication already in
  the list of events, and the outcome is recorded after they return.
\<close>

theorem C7_newGRPCServer_order:
  assumes "UseAuth (Security cfg)"
  shows "(\<forall>newCtx err.
            (case ServerOverride info of
               Some overrideSrv \<Rightarrow> overrideSrv ctx (FullMethod info)
             | None \<Rightarrow> auth_GetAuthenticationInterceptor e authContext ctx) = (newCtx, Some err)
            \<longrightarrow> unaryInterceptor (fst (newGRPCServer e cfg authContext opts))
                  log ctx req info handler
                = (log @ [MetricsStarted (FullMethod info), AuthChecked (FullMethod info),
                          MetricsHandled (FullMethod info) (Some err)], Inl err))
       \<and> (\<forall>newCtx log' r.
            (case ServerOverride info of
               Some overrideSrv \<Rightarrow> overrideSrv ctx (FullMethod info)
             | None \<Rightarrow> auth_GetAuthenticationInterceptor e authContext ctx) = (newCtx, None)
            \<longrightarrow> auth_AuthenticationLoggingInterceptor e
                  (log @ [MetricsStarted (FullMethod info), AuthChecked (FullMethod info)])
                  newCtx req info handler = (log', r)
            \<longrightarrow> unaryInterceptor (fst (newGRPCServer e cfg authContext opts))
                  log ctx req info handler
                = (log' @ [MetricsHandled (FullMethod info)
                             (case r of Inl err \<Rightarrow> Some err | Inr resp \<Rightarrow> None)], r))"
  using assms
  by (auto simp: newGRPCServer_def grpc_prometheus_UnaryServerInterceptor_def
        grpcauth_UnaryServerInterceptor_def Let_def split: option.splits prod.splits)

theorem C7_newGRPCServer_order_witness:
  "unaryInterceptor (fst (newGRPCServer example_serve_env (example_config True) () []))
     [] [] ''request''
     \<lparr>ServerOverride = None, FullMethod = ''/flyteidl.service.AdminService/ListProjects''\<rparr>
     example_handler
   = ([MetricsStarted ''/flyteidl.service.AdminService/ListProjects'',
       AuthChecked ''/flyteidl.service.AdminService/ListProjects'',
       MetricsHandled ''/flyteidl.service.AdminService/ListProjects''
         (Some (ErrorString ''unauthenticated''))],
      Inl (ErrorString ''unauthenticated''))
   \<and> unaryInterceptor (fst (newGRPCServer example_serve_env (example_config True) () []))
     [] [(''authorization'', ''Bearer good'')] ''request''
     \<lparr>ServerOverride = None, FullMethod = ''/flyteidl.service.AdminService/ListProjects''\<rparr>
     example_handler
   = ([MetricsStarted ''/flyteidl.service.AdminService/ListProjects'',
       AuthChecked ''/flyteidl.service.AdminService/ListProjects'',
       HandlerRan ''request'',
       MetricsHandled ''/flyteidl.service.AdminService/ListProjects'' None],
      Inr ''ok'')"
  using C7_newGRPCServer_order [where cfg = "example_config True" and e = example_serve_env
          and info = "\<lparr>ServerOverride = None,
                        FullMethod = ''/flyteidl.service.AdminService/ListProjects''\<rparr>"
          and ctx = "[]" and authContext = "()" and opts = "[]" and log = "[]"
          and req = "''request''" and handler = example_handler]
        C7_newGRPCServer_order [where cfg = "example_config True" and e = example_serve_env
          and info = "\<lparr>ServerOverride = None,
                        FullMethod = ''/flyteidl.service.AdminService/ListProjects''\<rparr>"
          and ctx = "[(''authorization'', ''Bearer good'')]" and authContext = "()"
          and opts = "[]" and log = "[]" and req = "''request''" and handler = example_handler]
  by (simp add: newGRPCServer_def grpc_prometheus_UnaryServerInterceptor_def
        grpcauth_UnaryServerInterceptor_def example_serve_env_def example_config_def
        example_interceptor_def example_handler_def)

section \<open>The routes of the HTTP server\<close>

text \<open>
  C8 as it is written, that the mux has all six routes, fails when \<open>UseAuth\<close> is not
  set: the mux
  of the example server then has the patterns \<open>/healthcheck\<close>, \<open>/api/v1/openapi\<close> and
  \<open>/\<close> only, and a request for \<open>/login\<close> is served by the pattern \<open>/\<close>, the
  gateway.
\<close>

theorem C8_newHTTPServer_without_auth_counterexample:
  "map_option ServeMux_patterns
     (fst (the (newHTTPServer example_serve_env (example_config False) () ''localhost:8089'')))
     = Some [''/healthcheck'', ''/api/v1/openapi'', ''/'']
   \<and> map_option fst
      (ServeMux_match
         (the (fst (the (newHTTPServer example_serve_env (example_config False) ()
                           ''localhost:8089''))))
         ''/login'')
     = Some ''/''"
  by (simp add: newHTTPServer_def ServeMux_Handle_def ServeMux_patterns_def
        example_serve_env_def example_config_def ServeMux_match_def)

text \<open>
  C8, amended. When registering the admin service with the gateway succeeds,
  \<open>newHTTPServer\<close> returns a mux and no error. With \<open>UseAuth\<close> set the mux has
  exactly the six patterns \<open>/healthcheck\<close>, \<open>/api/v1/openapi\<close>, \<open>/login_page\<close>,
  \<open>/login\<close>, \<open>/callback\<close> and \<open>/\<close>, each with its handler, \<open>/\<close> with the
  gateway mux. With \<open>UseAuth\<close> not set it has exactly \<open>/healthcheck\<close>,
  \<open>/api/v1/openapi\<close> and \<open>/\<close>. When registering fails there is no mux, and the
  error wraps the failure. The handler of \<open>/healthcheck\<close> answers a fresh response
  with status 200.
\<close>

theorem C8_newHTTPServer_routes:
  fixes e :: "'ac serve_env"
  shows "(UseAuth (Security cfg) \<longrightarrow>
          RegisterAdminServiceHandlerFromEndpoint e
            \<lparr>marshalerOption = ''application/octet-stream'', withMetadata = True,
             registered = []\<rparr> grpcAddress = (None, gwmux) \<longrightarrow>
          (\<exists>mux. newHTTPServer e cfg authContext grpcAddress = Some (Some mux, None)
             \<and> ServeMux_patterns mux
                 = [''/healthcheck'', ''/api/v1/openapi'', ''/login_page'', ''/login'',
                    ''/callback'', ''/'']
             \<and> map_of mux ''/healthcheck'' = Some healthcheck
             \<and> map_of mux ''/api/v1/openapi'' = Some (GetHandleOpenapiSpec e)
             \<and> map_of mux ''/login_page'' = Some loginPage
             \<and> map_of mux ''/login''
                 = Some (auth_RefreshTokensIfExists e authContext
                           (auth_GetLoginHandler e authContext))
             \<and> map_of mux ''/callback'' = Some (auth_GetCallbackHandler e authContext)
             \<and> map_of mux ''/'' = Some (gwmux_ServeHTTP e gwmux)))
       \<and> (\<not> UseAuth (Security cfg) \<longrightarrow>
          RegisterAdminServiceHandlerFromEndpoint e
            \<lparr>marshalerOption = ''application/octet-stream'', withMetadata = False,
             registered = []\<rparr> grpcAddress = (None, gwmux) \<longrightarrow>
          (\<exists>mux. newHTTPServer e cfg authContext grpcAddress = Some (Some mux, None)
             \<and> ServeMux_patterns mux = [''/healthcheck'', ''/api/v1/openapi'', ''/'']
             \<and> map_of mux ''/healthcheck'' = Some healthcheck
             \<and> map_of mux ''/api/v1/openapi'' = Some (GetHandleOpenapiSpec e)
             \<and> map_of mux ''/'' = Some (gwmux_ServeHTTP e gwmux)))
       \<and> (RegisterAdminServiceHandlerFromEndpoint e
            \<lparr>marshalerOption = ''application/octet-stream'',
             withMetadata = UseAuth (Security cfg), registered = []\<rparr> grpcAddress
            = (Some err, gwmux) \<longrightarrow>
          newHTTPServer e cfg authContext grpcAddress
            = Some (None, Some (Wrapped ''error registering admin service'' err)))
       \<and> (status w = None \<longrightarrow> status (healthcheck w r) = Some 200)"
  by (auto simp: newHTTPServer_def ServeMux_Handle_def ServeMux_patterns_def healthcheck_def
        WriteHeader_def http_StatusOK_def errors_Wrap_def)

theorem C8_newHTTPServer_routes_witness:
  "map_option ServeMux_patterns
     (fst (the (newHTTPServer example_serve_env (example_config True) () ''localhost:8089'')))
     = Some [''/healthcheck'', ''/api/v1/openapi'', ''/login_page'', ''/login'',
             ''/callback'', ''/'']
   \<and> map_option fst
      (ServeMux_match
         (the (fst (the (newHTTPServer example_serve_env (example_config True) ()
                           ''localhost:8089''))))
         ''/login'')
     = Some ''/login''
   \<and> map_option ServeMux_patterns
      (fst (the (newHTTPServer example_serve_env (example_config False) ()
                   ''localhost:8089'')))
     = Some [''/healthcheck'', ''/api/v1/openapi'', ''/'']
   \<and> newHTTPServer example_serve_env (example_config True) () ''''
     = Some (None, Some (Wrapped ''error registering admin service''
                           (ErrorString ''empty address'')))
   \<and> status (healthcheck \<lparr>status = None, body = ''''\<rparr> (example_request 1 ''text/plain''))
     = Some 200"
  using C8_newHTTPServer_routes [where e = example_serve_env and cfg = "example_config True"
          and authContext = "()" and grpcAddress = "''localhost:8089''"
          and w = "\<lparr>status = None, body = ''''\<rparr>" and r = "example_request 1 ''text/plain''"]
        C8_newHTTPServer_routes [where e = example_serve_env and cfg = "example_config False"
          and authContext = "()" and grpcAddress = "''localhost:8089''"]
        C8_newHTTPServer_routes [where e = example_serve_env and cfg = "example_config True"
          and authContext = "()" and grpcAddress = "''''"]
  by (simp add: newHTTPServer_def ServeMux_Handle_def ServeMux_patterns_def
        example_serve_env_def example_config_def ServeMux_match_def healthcheck_def
        WriteHeader_def http_StatusOK_def errors_Wrap_def)

section \<open>Preparing a workflow\<close>

lemma addTaskPluginImpls_None: "addTaskPluginImpls ovs m = None \<longleftrightarrow> None \<in> set ovs"
proof (induction ovs arbitrary: m)
  case Nil
  show ?case by simp
next
  case (Cons a ovs)
  show ?case by (cases a) (simp_all add: Cons.IH)
qed

lemma addExecutionOverrides_None:
  "addExecutionOverrides ovs wec re tr fw = None \<longleftrightarrow> None \<in> set ovs"
  using addTaskPluginImpls_None [of ovs Map.empty]
  by (auto simp: addExecutionOverrides_def Let_def split: option.splits)

lemma addExecutionOverrides_SomeD:
  "addExecutionOverrides ovs wec re tr fw = Some w \<Longrightarrow> None \<notin> set ovs"
  using addExecutionOverrides_None [of ovs wec re tr fw] by auto

lemma addExecutionOverrides_NoneD:
  "addExecutionOverrides ovs wec re tr fw = None \<Longrightarrow> None \<in> set ovs"
  using addExecutionOverrides_None [of ovs wec re tr fw] by auto

lemma PrepareFlyteWorkflow_nil_id:
  "PrepareFlyteWorkflowInput.ExecutionID input = None \<Longrightarrow>
   PrepareFlyteWorkflow input fw
     = Some (Some (FlyteAdminError 13 ''invalid execution id''), fw)"
  by (simp add: PrepareFlyteWorkflow_def NewFlyteAdminErrorf_def codes_Internal_def)

lemma PrepareFlyteWorkflow_nil_workflow:
  "PrepareFlyteWorkflowInput.ExecutionID input \<noteq> None \<Longrightarrow>
   PrepareFlyteWorkflow input None
     = Some (Some (FlyteAdminError 13 ''missing Flyte Workflow ''), None)"
  by (simp add: PrepareFlyteWorkflow_def NewFlyteAdminErrorf_def codes_Internal_def)

lemma PrepareFlyteWorkflow_panic:
  "PrepareFlyteWorkflowInput.ExecutionID input \<noteq> None \<Longrightarrow>
   None \<in> set (TaskPluginOverrides input) \<Longrightarrow>
   PrepareFlyteWorkflow input (Some fw) = None"
  by (auto simp: PrepareFlyteWorkflow_def Let_def split: option.splits
        dest: addExecutionOverrides_SomeD)

lemma PrepareFlyteWorkflow_ok:
  "PrepareFlyteWorkflowInput.ExecutionID input \<noteq> None \<Longrightarrow>
   None \<notin> set (TaskPluginOverrides input) \<Longrightarrow>
   \<exists>w. PrepareFlyteWorkflow input (Some fw) = Some (None, Some w)"
  by (auto simp: PrepareFlyteWorkflow_def Let_def split: option.splits
        dest: addExecutionOverrides_NoneD)

text \<open>
  C10 as it is written, that every input with an execution id and a workflow makes
  \<open>PrepareFlyteWorkflow\<close> return \<open>nil\<close>, fails on a slice of plugin overrides with
  a \<open>nil\<close> entry: the call panics and returns nothing.
\<close>

theorem C10_PrepareFlyteWorkflow_nil_override_counterexample:
  "PrepareFlyteWorkflowInput.ExecutionID (example_input (Some example_id) [None]) \<noteq> None
   \<and> PrepareFlyteWorkflow (example_input (Some example_id) [None]) (Some example_workflow)
     = None"
  by (simp add: PrepareFlyteWorkflow_panic example_input_def)

text \<open>
  C10, amended. \<open>PrepareFlyteWorkflow\<close> returns an error exactly when the execution
  id is \<open>nil\<close> or the workflow is \<open>nil\<close>, and then the workflow behind the pointer is
  as it was before the call. With an execution id, a workflow and no \<open>nil\<close> entry among
  the plugin overrides it returns \<open>nil\<close>. With an execution id, a workflow and a
  \<open>nil\<close> entry among the plugin overrides it panics.
\<close>

theorem C10_PrepareFlyteWorkflow_errors:
  "((\<exists>err fw'. PrepareFlyteWorkflow input flyteWorkflow = Some (Some err, fw'))
      \<longleftrightarrow> PrepareFlyteWorkflowInput.ExecutionID input = None \<or> flyteWorkflow = None)
   \<and> (PrepareFlyteWorkflowInput.ExecutionID input = None \<or> flyteWorkflow = None \<longrightarrow>
        (\<exists>err. PrepareFlyteWorkflow input flyteWorkflow = Some (Some err, flyteWorkflow)))
   \<and> (PrepareFlyteWorkflowInput.ExecutionID input \<noteq> None \<and> flyteWorkflow \<noteq> None
        \<and> None \<notin> set (TaskPluginOverrides input) \<longrightarrow>
        (\<exists>fw'. PrepareFlyteWorkflow input flyteWorkflow = Some (None, Some fw')))
   \<and> (PrepareFlyteWorkflowInput.ExecutionID input \<noteq> None \<and> flyteWorkflow \<noteq> None
        \<and> None \<in> set (TaskPluginOverrides input) \<longrightarrow>
        PrepareFlyteWorkflow input flyteWorkflow = None)"
proof (cases "PrepareFlyteWorkflowInput.ExecutionID input = None")
  case True
  then show ?thesis by (simp add: PrepareFlyteWorkflow_nil_id)
next
  case id: False
  show ?thesis
  proof (cases flyteWorkflow)
    case None
    with id show ?thesis by (auto simp: PrepareFlyteWorkflow_nil_workflow)
  next
    case (Some fw)
    show ?thesis
    proof (cases "None \<in> set (TaskPluginOverrides input)")
      case True
      with id Some show ?thesis by (auto simp: PrepareFlyteWorkflow_panic)
    next
      case False
      from PrepareFlyteWorkflow_ok [OF id False, of fw]
      obtain w where "PrepareFlyteWorkflow input (Some fw) = Some (None, Some w)" by blast
      with id Some False show ?thesis by auto
    qed
  qed
qed

theorem C10_PrepareFlyteWorkflow_errors_witness:
  "PrepareFlyteWorkflow (example_input None []) (Some example_workflow)
     = Some (Some (FlyteAdminError 13 ''invalid execution id''), Some example_workflow)
   \<and> PrepareFlyteWorkflow (example_input (Some example_id) []) None
     = Some (Some (FlyteAdminError 13 ''missing Flyte Workflow ''), None)
   \<and> fst (the (PrepareFlyteWorkflow
                 (example_input (Some example_id)
                    [Some \<lparr>TaskType = ''spark'', PluginId = [''spark''],
                           PluginOverride.MissingPluginBehavior = 0\<rparr>])
                 (Some example_workflow))) = None
   \<and> map_option FlyteWorkflow.ExecutionID
       (snd (the (PrepareFlyteWorkflow
                    (example_input (Some example_id)
                       [Some \<lparr>TaskType = ''spark'', PluginId = [''spark''],
                              PluginOverride.MissingPluginBehavior = 0\<rparr>])
                    (Some example_workflow)))) = Some (Some example_id)
   \<and> PrepareFlyteWorkflow
       (example_input (Some example_id)
          [Some \<lparr>TaskType = ''spark'', PluginId = [''spark''],
                 PluginOverride.MissingPluginBehavior = 0\<rparr>, None])
       (Some example_workflow) = None"
  using C10_PrepareFlyteWorkflow_errors [of "example_input None []" "Some example_workflow"]
        C10_PrepareFlyteWorkflow_errors
          [of "example_input (Some example_id)
                 [Some \<lparr>TaskType = ''spark'', PluginId = [''spark''],
                        PluginOverride.MissingPluginBehavior = 0\<rparr>, None]"
              "Some example_workflow"]
        C10_PrepareFlyteWorkflow_errors [of "example_input (Some example_id) []" None]
        C10_PrepareFlyteWorkflow_errors
          [of "example_input (Some example_id)
                 [Some \<lparr>TaskType = ''spark'', PluginId = [''spark''],
                        PluginOverride.MissingPluginBehavior = 0\<rparr>]"
              "Some example_workflow"]
  by (simp add: PrepareFlyteWorkflow_def example_input_def example_workflow_def
        NewFlyteAdminErrorf_def codes_Internal_def addPermissions_def addMapValues_def
        addExecutionOverrides_def Let_def)

end
